theory Spec2Isabelle
  imports Complex_Main "HOL-Library.Word"
begin

section \<open>Tensors\<close>

text \<open>
  The agent computes on TensorFlow tensors of floating-point numbers. The embedding
  keeps the algebra and leaves the rounding out: an entry is a \<^typ>\<open>real\<close>. A
  rank-1 tensor over the flattened batch axis is a list with one entry per batch item,
  and a time-major rank-2 tensor (axis 0 is the time step) is a list of such rows.
  Arithmetic between tensors is elementwise; a Python scalar is broadcast over a row.
\<close>

type_synonym vec = "real list"
type_synonym tseq = "vec list"

definition vadd :: "vec \<Rightarrow> vec \<Rightarrow> vec" where
  "vadd u v = map2 (+) u v"

definition vsub :: "vec \<Rightarrow> vec \<Rightarrow> vec" where
  "vsub u v = map2 (-) u v"

definition vmul :: "vec \<Rightarrow> vec \<Rightarrow> vec" where
  "vmul u v = map2 (*) u v"

definition smul :: "real \<Rightarrow> vec \<Rightarrow> vec" where
  "smul c v = map ((*) c) v"

text \<open>What the code raises, as values.\<close>

datatype error =
    NotImplementedError string
  | AssertionError string
  | KeyError string
  | IndexError
  | InvalidArgumentError

section \<open>The bootstrapped return\<close>

text \<open>
  Modelled from the spec: \<open>common.lambda_return\<close>, which \<open>ActorCritic.target\<close> calls;
  the module \<open>common\<close> is not among the sources. The spec gives the recurrence
  \<open>return[t] = reward[t] + discount[t] * ((1-lambda)*value[t+1] + lambda*return[t+1])\<close>,
  computed backward with \<open>return[last] = bootstrap\<close>. The value that follows the last
  step is the bootstrap as well. The three sequences have one length; the recursion
  ends with the shortest.
\<close>

fun lambda_return :: "tseq \<Rightarrow> tseq \<Rightarrow> tseq \<Rightarrow> vec \<Rightarrow> real \<Rightarrow> tseq" where
  "lambda_return (r # reward) (v # val) (d # pcont) bootstrap lam =
     (let rest = lambda_return reward val pcont bootstrap lam;
          next_value = (case val of [] \<Rightarrow> bootstrap | v' # _ \<Rightarrow> v');
          next_return = (case rest of [] \<Rightarrow> bootstrap | g # _ \<Rightarrow> g)
      in vadd r (vmul d (vadd (smul (1 - lam) next_value) (smul lam next_return)))
         # rest)"
| "lambda_return _ _ _ bootstrap lam = []"

text \<open>
  The imagined trajectory \<open>seq\<close>: a dictionary of time-major tensors, one field per
  key. \<open>'zb\<close> is the latent state of the whole batch at one step (the entries of the
  RSSM's state dictionary), \<open>'f\<close> the feature vector of one batch item; an action of one
  batch item is a vector. \<open>WorldModel.imagine\<close> fills the fields of \<open>seq\<close>;
  \<open>ActorCritic.train\<close> adds the key \<open>reward\<close>.
\<close>

record ('zb, 'f) seq =
  seq_state :: "'zb list"
  seq_feat :: "'f list list"
  seq_action :: "real list list list"
  seq_discount :: tseq
  seq_weight :: tseq

record ('zb, 'f) rseq = "('zb, 'f) seq" +
  seq_reward :: tseq

text \<open>
  \<open>x.mean()\<close> over all entries of a rank-2 tensor. The mean of a tensor with no entry
  is NaN in TensorFlow, never a number: \<open>None\<close> here.
\<close>

definition tmean :: "tseq \<Rightarrow> real option" where
  "tmean x = (if concat x = [] then None
              else Some (sum_list (concat x) / real (length (concat x))))"

text \<open>
  \<open>ActorCritic.target\<close>. \<open>value_fn\<close> is \<open>self._target_critic(f).mode()\<close> for the
  feature vector \<open>f\<close> of one batch item; the casts to float32 do nothing on reals.
  \<open>value[-1]\<close> of a sequence with no step raises.
\<close>

definition target ::
  "real \<Rightarrow> ('f \<Rightarrow> real) \<Rightarrow> ('zb, 'f) rseq \<Rightarrow> error + tseq \<times> (string \<times> real option) list"
where
  "target discount_lambda value_fn seq =
     (let reward = seq_reward seq;
          disc = seq_discount seq;
          val = map (map value_fn) (seq_feat seq)
      in if val = [] then Inl IndexError
         else
           let tg = lambda_return (butlast reward) (butlast val) (butlast disc)
                      (last val) discount_lambda
           in Inr (tg, [(''critic_slow'', tmean val), (''critic_target'', tmean tg)]))"

section \<open>Configuration\<close>

text \<open>
  The keys of the configuration object that the agent reads. A schedule specification
  (\<open>actor_grad_mix\<close>, \<open>actor_ent\<close>) is a string that \<open>common.schedule\<close> interprets.
  The field of the key \<open>slow_target_update\<close> carries a prime, since the record of a
  field \<open>slow_target\<close> has an update function of that name.
\<close>

record config =
  pred_discount :: bool
  grad_heads :: "string list"
  discount :: real
  clip_rewards :: string
  loss_scales :: "string \<rightharpoonup> real"
  actor_dist :: string
  actor_grad :: string
  actor_grad_mix :: string
  actor_ent :: string
  discount_lambda :: real
  imag_horizon :: nat
  slow_target :: bool
  slow_target_update' :: int
  slow_target_fraction :: real

section \<open>The world model\<close>

text \<open>
  The networks are collaborators of the agent; the embedding takes what they compute as
  parameters. \<open>'z\<close> is the latent state of one batch item and \<open>'f\<close> its feature vector.
  \<open>get_feat\<close> is \<open>rssm.get_feat\<close> on one item. \<open>img_step\<close> is \<open>rssm.img_step\<close> on the
  whole batch: it is given the last entry of every key of \<open>seq\<close> and the action, and it
  samples, so it also takes the number of the imagination step as the index of its
  random draw. A network returns tensors of the batch it is given.
\<close>

record ('z, 'f) rssm =
  get_feat :: "'z \<Rightarrow> 'f"
  img_step :: "nat \<Rightarrow> 'z list \<times> 'f list \<times> real list list \<Rightarrow> real list list \<Rightarrow> 'z list"

text \<open>
  A distribution object as the actor returns it for one batch item, \<open>'d\<close>, with the
  methods the agent calls. \<open>sample\<close> draws for the whole batch.
\<close>

record 'd dist_ops =
  dist_mode :: "'d \<Rightarrow> real list"
  dist_sample :: "nat \<Rightarrow> 'd list \<Rightarrow> real list list"
  dist_log_prob :: "'d \<Rightarrow> real list \<Rightarrow> real"
  dist_entropy :: "'d \<Rightarrow> real"

text \<open>
  \<open>'h\<close> is a prediction head; \<open>head_mean h f\<close> is \<open>h(f).mean()\<close> for the feature vector
  of one item.
\<close>

record ('z, 'f, 'h) world_model =
  wm_config :: config
  wm_rssm :: "('z, 'f) rssm"
  heads :: "string \<rightharpoonup> 'h"
  head_mean :: "'h \<Rightarrow> 'f \<Rightarrow> real"
  iso_reg :: real

text \<open>
  \<open>WorldModel.__init__\<close>: the heads \<open>decoder\<close> and \<open>reward\<close> are always registered,
  \<open>discount\<close> when \<open>config.pred_discount\<close> is set; then every name of
  \<open>config.grad_heads\<close> is asserted to be registered, in order, the name being the
  message of the assertion. The constructed networks are parameters.
\<close>

definition WorldModel_init ::
  "config \<Rightarrow> ('z, 'f) rssm \<Rightarrow> 'h \<Rightarrow> 'h \<Rightarrow> 'h \<Rightarrow> ('h \<Rightarrow> 'f \<Rightarrow> real) \<Rightarrow> real
   \<Rightarrow> error + ('z, 'f, 'h) world_model"
where
  "WorldModel_init cfg rs decoder_head reward_head discount_head hm isoreg =
     (let hs0 = [''decoder'' \<mapsto> decoder_head, ''reward'' \<mapsto> reward_head];
          hs = (if pred_discount cfg then hs0(''discount'' \<mapsto> discount_head) else hs0)
      in case find (\<lambda>name. hs name = None) (grad_heads cfg) of
           Some name \<Rightarrow> Inl (AssertionError name)
         | None \<Rightarrow> Inr \<lparr>wm_config = cfg, wm_rssm = rs, heads = hs, head_mean = hm,
                         iso_reg = isoreg\<rparr>)"

subsection \<open>Imagination\<close>

text \<open>
  The loop of \<open>WorldModel.imagine\<close>: \<open>n\<close> more steps, \<open>k\<close> steps done. \<open>seq\<close> holds,
  for each key, the list of the entries so far (never empty).
\<close>

fun imagine_loop ::
  "('z, 'f) rssm \<Rightarrow> 'd dist_ops \<Rightarrow> ('f \<Rightarrow> 'd) \<Rightarrow> nat \<Rightarrow> nat
   \<Rightarrow> 'z list list \<times> 'f list list \<times> real list list list
   \<Rightarrow> 'z list list \<times> 'f list list \<times> real list list list"
where
  "imagine_loop rs ops policy k 0 seq = seq"
| "imagine_loop rs ops policy k (Suc n) (states, feats, actions) =
     (let action = dist_sample ops k (map policy (last feats));
          state = img_step rs k (last states, last feats, last actions) action;
          feat = map (get_feat rs) state
      in imagine_loop rs ops policy (Suc k) n
           (states @ [state], feats @ [feat], actions @ [action]))"

text \<open>\<open>tf.math.cumprod(x, 0)\<close>: the running elementwise product of the rows.\<close>

fun cumprod_from :: "vec \<Rightarrow> tseq \<Rightarrow> tseq" where
  "cumprod_from acc [] = []"
| "cumprod_from acc (x # xs) = (let a = vmul acc x in a # cumprod_from a xs)"

fun cumprod :: "tseq \<Rightarrow> tseq" where
  "cumprod [] = []"
| "cumprod (x # xs) = x # cumprod_from x xs"

definition ones_like :: "tseq \<Rightarrow> tseq" where
  "ones_like x = map (map (\<lambda>_. 1)) x"

definition zeros_like :: "real list list \<Rightarrow> real list list" where
  "zeros_like x = map (map (\<lambda>_. 0)) x"

text \<open>
  \<open>WorldModel.imagine\<close>. \<open>start\<close> and \<open>is_terminal\<close> come with the two leading axes
  of the replay batch, which \<open>flatten\<close> merges. \<open>is_terminal\<close> holds 1 for a terminal
  step and 0 otherwise, so the cast to the dtype of \<open>disc\<close> does nothing. \<open>tf.concat\<close>
  raises when the row made from \<open>is_terminal\<close> has not the width of the rows of
  \<open>disc\<close>.
\<close>

definition flatten :: "'a list list \<Rightarrow> 'a list" where
  "flatten x = concat x"

definition imagine ::
  "('z, 'f, 'h) world_model \<Rightarrow> 'd dist_ops \<Rightarrow> ('f \<Rightarrow> 'd) \<Rightarrow> 'z list list
   \<Rightarrow> real list list option \<Rightarrow> nat \<Rightarrow> error + ('z list, 'f) seq"
where
  "imagine wm ops policy start is_terminal horizon =
     (let start0 = flatten start;
          feat0 = map (get_feat (wm_rssm wm)) start0;
          action0 = zeros_like (map (\<lambda>f. dist_mode ops (policy f)) feat0);
          (states, feats, actions) =
             imagine_loop (wm_rssm wm) ops policy 0 horizon ([start0], [feat0], [action0]);
          disc_or_error =
            (case heads wm ''discount'' of
               Some h \<Rightarrow>
                 (let disc = map (map (head_mean wm h)) feats
                  in case is_terminal of
                       Some it \<Rightarrow>
                         (let true_first = map (\<lambda>x. (1 - x) * discount (wm_config wm)) (flatten it)
                          in if length true_first = length (hd disc)
                             then Inr ([true_first] @ drop 1 disc)
                             else Inl InvalidArgumentError)
                     | None \<Rightarrow> Inr disc)
             | None \<Rightarrow> Inr (map (map (\<lambda>_. discount (wm_config wm) * 1)) feats))
      in case disc_or_error of
           Inl e \<Rightarrow> Inl e
         | Inr disc \<Rightarrow>
             Inr \<lparr>seq_state = states, seq_feat = feats, seq_action = actions,
                  seq_discount = disc,
                  seq_weight = cumprod (ones_like (take 1 disc) @ butlast disc)\<rparr>)"

subsection \<open>Preprocessing\<close>

text \<open>
  An entry of the observation mapping: a tensor with its dtype and its entries in
  row-major order. The entries of a boolean tensor are 0 and 1. The compute dtype of a
  mixed-precision policy is a floating-point dtype (a global policy of another dtype is
  refused when it is set), and a cast to it keeps the entries.
\<close>

datatype float_dtype = float16 | bfloat16 | float32 | float64

datatype dtype = tf_bool | tf_uint8 | tf_int32 | tf_int64 | tf_float float_dtype

record tensor =
  dtype :: dtype
  vals :: "real list"

definition astype :: "float_dtype \<Rightarrow> tensor \<Rightarrow> tensor" where
  "astype dt x = \<lparr>dtype = tf_float dt, vals = vals x\<rparr>"

definition tmap :: "(real \<Rightarrow> real) \<Rightarrow> tensor \<Rightarrow> tensor" where
  "tmap f x = \<lparr>dtype = dtype x, vals = map f (vals x)\<rparr>"

definition startswith :: "string \<Rightarrow> string \<Rightarrow> bool" where
  "startswith key p = (take (length p) key = p)"

text \<open>The body of the loop of \<open>WorldModel.preprocess\<close> for a key that is not skipped.\<close>

definition preprocess_value :: "float_dtype \<Rightarrow> tensor \<Rightarrow> tensor" where
  "preprocess_value compute_dtype value0 =
     (let value1 = (if dtype value0 = tf_int32 then astype compute_dtype value0 else value0);
          value2 = (if dtype value1 = tf_uint8
                    then tmap (\<lambda>x. x / 255 - 0.5) (astype compute_dtype value1) else value1)
      in value2)"

text \<open>
  \<open>WorldModel.preprocess\<close>; \<open>compute_dtype\<close> is the compute dtype of the global
  mixed-precision policy. The loop visits every key of the copy and touches that key
  only. Then the reward is clipped (the table of clipping functions is indexed before
  \<open>obs['reward']\<close> is read) and the discount is written; a missing key raises.
\<close>

definition preprocess ::
  "config \<Rightarrow> float_dtype \<Rightarrow> (string \<rightharpoonup> tensor) \<Rightarrow> error + (string \<rightharpoonup> tensor)"
where
  "preprocess cfg compute_dtype obs0 =
     (let obs1 = (\<lambda>key. case obs0 key of
                     None \<Rightarrow> None
                   | Some value \<Rightarrow>
                       if startswith key ''log_'' then Some value
                       else Some (preprocess_value compute_dtype value));
          clip = [''identity'' \<mapsto> (\<lambda>x. x), ''sign'' \<mapsto> sgn, ''tanh'' \<mapsto> tanh]
      in case clip (clip_rewards cfg) of
           None \<Rightarrow> Inl (KeyError (clip_rewards cfg))
         | Some f \<Rightarrow>
             (case obs1 ''reward'' of
                None \<Rightarrow> Inl (KeyError ''reward'')
              | Some reward \<Rightarrow>
                  (let obs2 = obs1(''reward'' \<mapsto> tmap f reward)
                   in case obs2 ''is_terminal'' of
                        None \<Rightarrow> Inl (KeyError ''is_terminal'')
                      | Some is_terminal \<Rightarrow>
                          (let d = tmap (\<lambda>x. 1.0 - x) (astype compute_dtype is_terminal);
                               obs3 = obs2(''discount'' \<mapsto> d)
                           in Inr (obs3(''discount'' \<mapsto> tmap (\<lambda>x. x * discount cfg) d))))))"

subsection \<open>The training loss\<close>

text \<open>
  Python's \<open>losses[key] = value\<close> on a dictionary that keeps the order of insertion:
  an existing key keeps its place.
\<close>

fun setitem :: "('k \<times> 'v) list \<Rightarrow> 'k \<Rightarrow> 'v \<Rightarrow> ('k \<times> 'v) list" where
  "setitem [] k v = [(k, v)]"
| "setitem ((k', v') # d) k v = (if k' = k then (k, v) # d else (k', v') # setitem d k v)"

text \<open>
  Arithmetic on scalars that may be NaN (\<open>None\<close>): a result is NaN as soon as an operand
  is.
\<close>

fun oadd :: "real option \<Rightarrow> real option \<Rightarrow> real option" where
  "oadd (Some a) (Some b) = Some (a + b)"
| "oadd _ _ = None"

definition omul :: "real \<Rightarrow> real option \<Rightarrow> real option" where
  "omul c x = map_option ((*) c) x"

text \<open>
  The loss tensor as \<open>rssm.kl_loss\<close> returns it: a scalar, or an array, which has a
  first axis.
\<close>

datatype loss_tensor = Scalar real | Array nat "nat list"

fun shape :: "loss_tensor \<Rightarrow> nat list" where
  "shape (Scalar x) = []"
| "shape (Array n ns) = n # ns"

text \<open>
  \<open>tf.linalg.matvec\<close> of one matrix (a list of rows) and one vector, the sum of the
  squares of a vector (\<open>tf.reduce_sum(x**2)\<close>), and the mean of a vector, which is NaN
  for no entry. The transpose of a matrix is \<^const>\<open>transpose\<close>.
\<close>

definition matvec :: "real list list \<Rightarrow> real list \<Rightarrow> real list" where
  "matvec J v = map (\<lambda>row. sum_list (map2 (*) row v)) J"

definition sqnorm :: "real list \<Rightarrow> real" where
  "sqnorm x = sum_list (map (\<lambda>a. a ^ 2) x)"

definition reduce_mean :: "real list \<Rightarrow> real option" where
  "reduce_mean x = (if x = [] then None else Some (sum_list x / real (length x)))"

text \<open>
  What \<open>relaxed_distortion_measure\<close> draws at random: the two shuffled ranges, the
  interpolation weights \<open>alpha\<close> and the directions \<open>v\<close>.
\<close>

record draws =
  shuffle_sample :: "nat list"
  shuffle_perm :: "nat list"
  alpha :: "real list"
  direction :: "real list list"

definition gather :: "'a list \<Rightarrow> nat list \<Rightarrow> 'a list" where
  "gather z indices = map (\<lambda>i. z ! i) indices"

text \<open>
  \<open>WorldModel.sample_batch\<close>; \<open>int(n / ratio)\<close> of natural numbers is the quotient.
\<close>

definition sample_batch :: "nat list \<Rightarrow> 'a list \<Rightarrow> nat \<Rightarrow> 'a list" where
  "sample_batch shuffled z ratio = gather z (take (length z div ratio) shuffled)"

text \<open>
  \<open>WorldModel.relaxed_distortion_measure\<close>. \<open>jac z\<close> is the Jacobian of \<open>func\<close> at
  the feature vector \<open>z\<close>, a matrix with one row per output, which
  \<open>tape.batch_jacobian\<close> computes for every row of the perturbed batch. \<open>feat\<close> has the
  two leading axes of the replay batch; the features are vectors.
\<close>

definition relaxed_distortion_measure ::
  "draws \<Rightarrow> (real list \<Rightarrow> real list list) \<Rightarrow> real list list list \<Rightarrow> real option"
where
  "relaxed_distortion_measure rnd jac feat =
     (let z0 = concat feat;
          ratio = 400;
          z = sample_batch (shuffle_sample rnd) z0 ratio;
          z_perm = gather z (shuffle_perm rnd);
          z_augmented = map2 (\<lambda>a (x, y). vadd (smul a x) (smul (1 - a) y))
                          (alpha rnd) (zip z z_perm);
          J = map jac z_augmented;
          Jv = map2 matvec J (direction rnd);
          TrG = reduce_mean (map sqnorm Jv);
          JTJv = map2 matvec (map transpose J) Jv;
          TrG2 = reduce_mean (map sqnorm JTJv)
      in oadd (oadd TrG2 (omul (- 2) TrG)) (Some 2))"

text \<open>
  What the networks compute in \<open>WorldModel.loss\<close>, as parameters, each for the
  preprocessed batch and the state that the caller passes on: the first result of
  \<open>rssm.kl_loss\<close> on the observed posterior and prior; the features of the posterior;
  for a head applied to the features, its distributions by key, each as the function
  from the batch entry of that key to the tensor of log-probabilities; the Jacobian of
  the decoder's \<open>estim_obs\<close>; and the optimizer, which is given the loss and returns
  its metrics.
\<close>

record ('h, 's) loss_networks =
  kl_loss_out :: "'s option \<Rightarrow> (string \<rightharpoonup> tensor) \<Rightarrow> loss_tensor"
  post_feat :: "'s option \<Rightarrow> (string \<rightharpoonup> tensor) \<Rightarrow> real list list list"
  head_dists :: "'h \<Rightarrow> real list list list \<Rightarrow> (string \<times> (tensor \<Rightarrow> tseq)) list"
  estim_obs_jacobian :: "'h \<Rightarrow> real list \<Rightarrow> real list list"
  model_opt :: "real option \<Rightarrow> (string \<times> real option) list"

text \<open>The inner loop of \<open>WorldModel.loss\<close> over the distributions of one head.\<close>

fun head_losses ::
  "(string \<rightharpoonup> tensor) \<Rightarrow> (string \<times> (tensor \<Rightarrow> tseq)) list \<Rightarrow> (string \<times> real option) list
   \<Rightarrow> error + (string \<times> real option) list"
where
  "head_losses data [] losses = Inr losses"
| "head_losses data ((key, log_prob) # dists) losses =
     (case data key of
        None \<Rightarrow> Inl (KeyError key)
      | Some x \<Rightarrow>
          head_losses data dists
            (setitem losses key (map_option uminus (tmean (log_prob x)))))"

text \<open>
  The outer loop over \<open>self.heads.items()\<close>, in the order in which the constructor
  registers the heads.
\<close>

fun all_head_losses ::
  "('h, 's) loss_networks \<Rightarrow> (string \<rightharpoonup> 'h) \<Rightarrow> (string \<rightharpoonup> tensor) \<Rightarrow> real list list list
   \<Rightarrow> string list \<Rightarrow> (string \<times> real option) list \<Rightarrow> error + (string \<times> real option) list"
where
  "all_head_losses nets hs data feat [] losses = Inr losses"
| "all_head_losses nets hs data feat (name # names) losses =
     (case hs name of
        None \<Rightarrow> all_head_losses nets hs data feat names losses
      | Some head \<Rightarrow>
          (case head_losses data (head_dists nets head feat) losses of
             Inl e \<Rightarrow> Inl e
           | Inr losses' \<Rightarrow> all_head_losses nets hs data feat names losses'))"

text \<open>
  \<open>sum(self.config.loss_scales.get(k, 1.0) * v for k, v in losses.items())\<close>, which
  starts from 0.
\<close>

definition loss_scale :: "config \<Rightarrow> string \<Rightarrow> real" where
  "loss_scale cfg k = (case loss_scales cfg k of None \<Rightarrow> 1.0 | Some c \<Rightarrow> c)"

definition weighted_sum :: "config \<Rightarrow> (string \<times> real option) list \<Rightarrow> real option" where
  "weighted_sum cfg losses =
     foldl (\<lambda>acc (k, v). oadd acc (omul (loss_scale cfg k) v)) (Some 0) losses"

text \<open>
  \<open>WorldModel.loss\<close>. The result is the total loss and the dictionary \<open>losses\<close>; the
  last state, the outputs and the metrics, which the networks determine, are left out.
  The batch entries \<open>action\<close> and \<open>is_first\<close> are read for \<open>rssm.observe\<close>. The
  assertion has no message.
\<close>

definition loss ::
  "('z, real list, 'h) world_model \<Rightarrow> ('h, 's) loss_networks \<Rightarrow> float_dtype \<Rightarrow> draws
   \<Rightarrow> (string \<rightharpoonup> tensor) \<Rightarrow> 's option
   \<Rightarrow> error + real option \<times> (string \<times> real option) list"
where
  "loss wm nets compute_dtype rnd data0 state =
     (case preprocess (wm_config wm) compute_dtype data0 of
        Inl e \<Rightarrow> Inl e
      | Inr data \<Rightarrow>
          if data ''action'' = None then Inl (KeyError ''action'')
          else if data ''is_first'' = None then Inl (KeyError ''is_first'')
          else
            (let kl_loss = kl_loss_out nets state data in
             if length (shape kl_loss) \<noteq> 0 then Inl (AssertionError [])
             else
               (let losses0 = [(''kl'', (case kl_loss of Scalar x \<Rightarrow> Some x | Array _ _ \<Rightarrow> None))];
                    feat = post_feat nets state data
                in case all_head_losses nets (heads wm) data feat
                          [''decoder'', ''reward'', ''discount''] losses0 of
                     Inl e \<Rightarrow> Inl e
                   | Inr losses1 \<Rightarrow>
                       (case heads wm ''decoder'' of
                          None \<Rightarrow> Inl (KeyError ''decoder'')
                        | Some decoder \<Rightarrow>
                            (let iso_loss0 = relaxed_distortion_measure rnd
                                               (estim_obs_jacobian nets decoder) feat;
                                 iso_loss = omul (iso_reg wm) iso_loss0;
                                 losses = setitem losses1 ''iso'' iso_loss;
                                 model_loss = weighted_sum (wm_config wm) losses
                             in Inr (model_loss, losses))))))"

text \<open>
  \<open>WorldModel.train\<close>: the loss, then the optimizer; what the loss raises is not caught.
\<close>

definition WorldModel_train ::
  "('z, real list, 'h) world_model \<Rightarrow> ('h, 's) loss_networks \<Rightarrow> float_dtype \<Rightarrow> draws
   \<Rightarrow> (string \<rightharpoonup> tensor) \<Rightarrow> 's option
   \<Rightarrow> error + (real option \<times> (string \<times> real option) list) \<times> (string \<times> real option) list"
where
  "WorldModel_train wm nets compute_dtype rnd data state =
     (case loss wm nets compute_dtype rnd data state of
        Inl e \<Rightarrow> Inl e
      | Inr (model_loss, losses) \<Rightarrow>
          Inr ((model_loss, losses),
               map (\<lambda>(name, value). (name @ ''_loss'', value)) losses
                 @ model_opt nets model_loss))"

section \<open>The actor and the critic\<close>

text \<open>
  The state of an \<open>ActorCritic\<close>: its configuration, the variables of the actor and
  of the critic (each variable a tensor, its entries in row-major order), the variables
  of the target critic, and the counter \<open>_updates\<close>, an int64 variable. Without
  \<open>slow_target\<close> the target critic is the critic itself, not a copy: \<open>None\<close>.
  \<open>'n\<close> is the state of the running reward statistics.
\<close>

record 'n actor_critic =
  ac_config :: config
  actor :: "vec list"
  critic :: "vec list"
  target_critic :: "vec list option"
  updates :: "64 word"
  rewnorm :: 'n

definition target_variables :: "'n actor_critic \<Rightarrow> vec list" where
  "target_variables ac = (case target_critic ac of None \<Rightarrow> critic ac | Some d \<Rightarrow> d)"

text \<open>
  What the networks and the helpers of \<open>common\<close> compute, as parameters: the actor's
  distribution and the mode and log-probability of the critic's distribution, for given
  variables and the feature vector of one item; \<open>common.schedule\<close> of a specification
  and the training step; the reward normalisation, which returns the normalised rewards,
  its metrics and its next state; the two optimizers, which are given the loss and return
  the next variables and their metrics.
\<close>

record ('f, 'd, 'n) networks =
  actor_net :: "vec list \<Rightarrow> 'f \<Rightarrow> 'd"
  critic_mode :: "vec list \<Rightarrow> 'f \<Rightarrow> real"
  critic_log_prob :: "vec list \<Rightarrow> 'f \<Rightarrow> real \<Rightarrow> real"
  schedule :: "string \<Rightarrow> int \<Rightarrow> real"
  rewnorm_call :: "'n \<Rightarrow> tseq \<Rightarrow> tseq \<times> (string \<times> real option) list \<times> 'n"
  actor_opt :: "real option \<Rightarrow> vec list \<Rightarrow> vec list \<times> (string \<times> real option) list"
  critic_opt :: "real option \<Rightarrow> vec list \<Rightarrow> vec list \<times> (string \<times> real option) list"

text \<open>
  \<open>ActorCritic.__init__\<close>: the placeholders \<open>auto\<close> of \<open>actor.dist\<close> and
  \<open>actor_grad\<close> are resolved by whether the action space is discrete; any other value
  is kept as it is. The initial variables and statistics are parameters.
\<close>

definition ActorCritic_init ::
  "config \<Rightarrow> bool \<Rightarrow> vec list \<Rightarrow> vec list \<Rightarrow> vec list \<Rightarrow> 'n \<Rightarrow> 'n actor_critic"
where
  "ActorCritic_init cfg discrete actor0 critic0 target0 norm0 =
     (let cfg1 = (if actor_dist cfg = ''auto''
                  then cfg\<lparr>actor_dist := (if discrete then ''onehot'' else ''trunc_normal'')\<rparr>
                  else cfg);
          cfg2 = (if actor_grad cfg1 = ''auto''
                  then cfg1\<lparr>actor_grad := (if discrete then ''reinforce'' else ''dynamics'')\<rparr>
                  else cfg1)
      in \<lparr>ac_config = cfg2, actor = actor0, critic = critic0,
          target_critic = (if slow_target cfg2 then Some target0 else None),
          updates = 0, rewnorm = norm0\<rparr>)"

subsection \<open>The slow target\<close>

text \<open>
  The loop over \<open>zip(self.critic.variables, self._target_critic.variables)\<close>: each
  paired target variable is assigned \<open>mix * s + (1 - mix) * d\<close>; a target variable with
  no partner is left as it is.
\<close>

definition assign_mix :: "real \<Rightarrow> vec list \<Rightarrow> vec list \<Rightarrow> vec list" where
  "assign_mix mix ss ds =
     map2 (\<lambda>s d. vadd (smul mix s) (smul (1 - mix) d)) ss ds @ drop (length ss) ds"

text \<open>
  \<open>ActorCritic.update_slow_target\<close>. \<open>self._updates % slow_target_update\<close> is the floor
  modulus of int64 tensors, which agrees with \<open>mod\<close> on the signed value of the counter;
  TensorFlow raises for a zero divisor and for a divisor that is no int64.
  \<open>assign_add(1)\<close> wraps around.
\<close>

definition update_slow_target :: "'n actor_critic \<Rightarrow> error + 'n actor_critic" where
  "update_slow_target ac =
     (let cfg = ac_config ac in
      if slow_target cfg then
        (if slow_target_update' cfg = 0 \<or> slow_target_update' cfg < - (2 ^ 63)
            \<or> 2 ^ 63 \<le> slow_target_update' cfg
         then Inl InvalidArgumentError
         else
           (let ac1 =
              (if sint (updates ac) mod slow_target_update' cfg = 0 then
                 (let mix = (if updates ac = 0 then 1.0 else slow_target_fraction cfg)
                  in case target_critic ac of
                       Some d \<Rightarrow> ac\<lparr>target_critic := Some (assign_mix mix (critic ac) d)\<rparr>
                     | None \<Rightarrow> ac\<lparr>critic := assign_mix mix (critic ac) (critic ac)\<rparr>)
               else ac)
            in Inr (ac1\<lparr>updates := updates ac1 + 1\<rparr>)))
      else Inr ac)"


subsection \<open>The losses\<close>

text \<open>Elementwise arithmetic on time-major tensors.\<close>

definition tadd :: "tseq \<Rightarrow> tseq \<Rightarrow> tseq" where
  "tadd x y = map2 vadd x y"

definition tsub :: "tseq \<Rightarrow> tseq \<Rightarrow> tseq" where
  "tsub x y = map2 vsub x y"

definition tmul :: "tseq \<Rightarrow> tseq \<Rightarrow> tseq" where
  "tmul x y = map2 vmul x y"

definition tsmul :: "real \<Rightarrow> tseq \<Rightarrow> tseq" where
  "tsmul c x = map (smul c) x"

text \<open>
  \<open>ActorCritic.actor_loss\<close>. \<open>x[:-2]\<close> drops the last two steps, \<open>x[1:]\<close> the first
  and \<open>x[1:-1]\<close> the first and the last. \<open>tf.stop_gradient\<close> returns its argument.
  \<open>tgt\<close> is the argument \<open>target\<close>.
  \<open>step\<close> is the value of \<open>self.tfstep\<close>. The result is the loss and the metrics.
\<close>

definition actor_loss ::
  "('f, 'd, 'n) networks \<Rightarrow> 'd dist_ops \<Rightarrow> int \<Rightarrow> 'n actor_critic \<Rightarrow> ('zb, 'f) rseq \<Rightarrow> tseq
   \<Rightarrow> error + real option \<times> (string \<times> real option) list"
where
  "actor_loss nets ops step ac seq tgt =
     (let cfg = ac_config ac;
          policy = map (map (actor_net nets (actor ac))) (butlast (butlast (seq_feat seq)));
          objective_or_error =
            (if actor_grad cfg = ''dynamics'' then
               Inr (drop 1 tgt, [])
             else if actor_grad cfg = ''reinforce'' then
               (let baseline = map (map (critic_mode nets (target_variables ac)))
                                 (butlast (butlast (seq_feat seq)));
                    advantage = tsub (drop 1 tgt) baseline;
                    action = butlast (drop 1 (seq_action seq))
                in Inr (tmul (map2 (map2 (dist_log_prob ops)) policy action) advantage, []))
             else if actor_grad cfg = ''both'' then
               (let baseline = map (map (critic_mode nets (target_variables ac)))
                                 (butlast (butlast (seq_feat seq)));
                    advantage = tsub (drop 1 tgt) baseline;
                    objective = tmul (map2 (map2 (dist_log_prob ops)) policy
                                        (butlast (drop 1 (seq_action seq)))) advantage;
                    mix = schedule nets (actor_grad_mix cfg) step
                in Inr (tadd (tsmul mix (drop 1 tgt)) (tsmul (1 - mix) objective),
                        [(''actor_grad_mix'', Some mix)]))
             else Inl (NotImplementedError (actor_grad cfg)))
      in case objective_or_error of
           Inl e \<Rightarrow> Inl e
         | Inr (objective0, metrics0) \<Rightarrow>
             (let ent = map (map (dist_entropy ops)) policy;
                  ent_scale = schedule nets (actor_ent cfg) step;
                  objective = tadd objective0 (tsmul ent_scale ent);
                  weight = seq_weight seq;
                  loss = map_option uminus (tmean (tmul (butlast (butlast weight)) objective))
              in Inr (loss, metrics0 @ [(''actor_ent'', tmean ent),
                                        (''actor_ent_scale'', Some ent_scale)])))"

text \<open>\<open>ActorCritic.critic_loss\<close>.\<close>

definition critic_loss ::
  "('f, 'd, 'n) networks \<Rightarrow> 'n actor_critic \<Rightarrow> ('zb, 'f) rseq \<Rightarrow> tseq
   \<Rightarrow> real option \<times> (string \<times> real option) list"
where
  "critic_loss nets ac seq tgt =
     (let feat = butlast (seq_feat seq);
          log_prob = map2 (map2 (critic_log_prob nets (critic ac))) feat tgt;
          weight = seq_weight seq;
          loss = map_option uminus (tmean (tmul log_prob (butlast weight)))
      in (loss, [(''critic'', tmean (map (map (critic_mode nets (critic ac))) feat))]))"

text \<open>
  \<open>ActorCritic.train\<close>. \<open>reward_fn\<close> is the caller's reward function on the imagined
  sequence. No call is guarded: what a callee raises ends the training step. The result
  is the next state of the object and the metrics.
\<close>

definition train ::
  "('f, 'd, 'n) networks \<Rightarrow> 'd dist_ops \<Rightarrow> int \<Rightarrow> 'n actor_critic \<Rightarrow> ('z, 'f, 'h) world_model
   \<Rightarrow> 'z list list \<Rightarrow> real list list option \<Rightarrow> (('z list, 'f) seq \<Rightarrow> tseq)
   \<Rightarrow> error + 'n actor_critic \<times> (string \<times> real option) list"
where
  "train nets ops step ac world_model start is_terminal reward_fn =
     (let hor = imag_horizon (ac_config ac) in
      case imagine world_model ops (actor_net nets (actor ac)) start is_terminal hor of
        Inl e \<Rightarrow> Inl e
      | Inr seq0 \<Rightarrow>
          (let reward = reward_fn seq0;
               (normed, mets1, norm') = rewnorm_call nets (rewnorm ac) reward;
               ac1 = ac\<lparr>rewnorm := norm'\<rparr>;
               seq = seq.extend seq0 (rseq.fields normed)
           in case target (discount_lambda (ac_config ac1))
                     (critic_mode nets (target_variables ac1)) seq of
                Inl e \<Rightarrow> Inl e
              | Inr (tg, mets2) \<Rightarrow>
                  (case actor_loss nets ops step ac1 seq tg of
                     Inl e \<Rightarrow> Inl e
                   | Inr (aloss, mets3) \<Rightarrow>
                       (let (closs, mets4) = critic_loss nets ac1 seq tg;
                            (actor', amets) = actor_opt nets aloss (actor ac1);
                            (critic', cmets) = critic_opt nets closs (critic ac1);
                            ac2 = ac1\<lparr>actor := actor', critic := critic'\<rparr>
                        in case update_slow_target ac2 of
                             Inl e \<Rightarrow> Inl e
                           | Inr ac3 \<Rightarrow>
                               Inr (ac3, amets @ cmets
                                      @ map (\<lambda>(k, v). (''reward_'' @ k, v)) mets1
                                      @ mets2 @ mets3 @ mets4)))))"

text \<open>
  A tensor of \<open>T\<close> steps with \<open>N\<close> entries in every step, for stating what the
  losses are on well-shaped sequences.
\<close>

definition rect :: "nat \<Rightarrow> nat \<Rightarrow> 'a list list \<Rightarrow> bool" where
  "rect T N x \<longleftrightarrow> length x = T \<and> (\<forall>row \<in> set x. length row = N)"

subsection \<open>Example inputs\<close>

text \<open>
  A trajectory of three steps for two batch items, the feature of an item being one
  number.
\<close>

definition example_seq :: "(unit, real) rseq" where
  "example_seq = \<lparr>seq_state = [(), (), ()],
     seq_feat = [[10, 20], [10, 30], [10, 40]],
     seq_action = [[[0], [0]], [[1], [1]], [[1], [1]]],
     seq_discount = [[9/10, 1/2], [9/10, 1/2], [9/10, 1/2]],
     seq_weight = [[1, 1], [9/10, 1/2], [81/100, 1/4]],
     seq_reward = [[1, 2], [1, 2], [1, 2]]\<rparr>"

text \<open>
  A world model over two batch items whose latent state and feature are one number each:
  the feature doubles the state, an imagination step adds one to every state, and the
  discount head predicts 0.5 everywhere. The actor's distribution for a feature is that
  number; its sample adds the index of the draw.
\<close>

definition example_config :: config where
  "example_config = \<lparr>pred_discount = True, grad_heads = [''decoder'', ''reward'', ''discount''],
     discount = 9/10, clip_rewards = ''tanh'', loss_scales = [''kl'' \<mapsto> 1],
     actor_dist = ''trunc_normal'', actor_grad = ''dynamics'', actor_grad_mix = ''0.1'',
     actor_ent = ''1e-4'', discount_lambda = 95/100, imag_horizon = 3, slow_target = True,
     slow_target_update' = 100, slow_target_fraction = 1\<rparr>"

definition example_rssm :: "(real, real) rssm" where
  "example_rssm = \<lparr>get_feat = (\<lambda>z. 2 * z),
     img_step = (\<lambda>k (states, feats, actions) action. map (\<lambda>z. z + 1) states)\<rparr>"

definition example_ops :: "real dist_ops" where
  "example_ops = \<lparr>dist_mode = (\<lambda>d. [d]), dist_sample = (\<lambda>k ds. map (\<lambda>d. [d + real k]) ds),
     dist_log_prob = (\<lambda>d a. d - sum_list a), dist_entropy = (\<lambda>d. 1)\<rparr>"

definition example_wm :: "(real, real, nat) world_model" where
  "example_wm = \<lparr>wm_config = example_config, wm_rssm = example_rssm,
     heads = [''decoder'' \<mapsto> 0, ''reward'' \<mapsto> 1, ''discount'' \<mapsto> 2],
     head_mean = (\<lambda>h f. 1/2), iso_reg = 1/10\<rparr>"

definition example_wm_no_discount :: "(real, real, nat) world_model" where
  "example_wm_no_discount = example_wm\<lparr>heads := [''decoder'' \<mapsto> 0, ''reward'' \<mapsto> 1]\<rparr>"

text \<open>
  An observation with a logged entry, an image of bytes and a stale discount.
\<close>

definition example_obs :: "string \<rightharpoonup> tensor" where
  "example_obs = [''log_reward'' \<mapsto> \<lparr>dtype = tf_int32, vals = [7, 8]\<rparr>,
     ''image'' \<mapsto> \<lparr>dtype = tf_uint8, vals = [255, 0]\<rparr>,
     ''reward'' \<mapsto> \<lparr>dtype = tf_float float32, vals = [3, -2]\<rparr>,
     ''is_terminal'' \<mapsto> \<lparr>dtype = tf_bool, vals = [1, 0]\<rparr>,
     ''discount'' \<mapsto> \<lparr>dtype = tf_float float32, vals = [5, 5]\<rparr>]"

text \<open>
  A freshly constructed object with a cadence of 2 and a fraction of 0.25 for the slow
  target; the critic has two variables.
\<close>

definition example_ac :: "unit actor_critic" where
  "example_ac = ActorCritic_init
     (example_config\<lparr>slow_target_update' := 2, slow_target_fraction := 1/4\<rparr>) False
     [[1]] [[1, 2], [3]] [[0, 0], [0]] ()"

text \<open>
  Networks for the examples: the actor's distribution for a feature is that number, the
  critic predicts half the feature, every schedule is 0.1, and the reward normalisation
  and the optimizers change nothing.
\<close>

definition example_nets :: "(real, real, unit) networks" where
  "example_nets = \<lparr>actor_net = (\<lambda>vars f. f), critic_mode = (\<lambda>vars f. f / 2),
     critic_log_prob = (\<lambda>vars f x. - ((x - f / 2) ^ 2)), schedule = (\<lambda>spec step. 1 / 10),
     rewnorm_call = (\<lambda>n r. (r, [], n)), actor_opt = (\<lambda>loss vars. (vars, [])),
     critic_opt = (\<lambda>loss vars. (vars, []))\<rparr>"

definition example_ac_unsupported :: "unit actor_critic" where
  "example_ac_unsupported =
     example_ac\<lparr>ac_config := (ac_config example_ac)\<lparr>actor_grad := ''pathwise''\<rparr>\<rparr>"

text \<open>
  A world model whose features are vectors of two numbers, a replay batch with the
  entries that the loss reads, networks for the loss and the random draws of the
  distortion measure. The posterior has 20 by 20 features \<open>[1, 2]\<close>, of which one is
  sampled; the KL loss is the scalar 3, the reward head has the log-probabilities -1
  and -3, and the Jacobian of the decoder is the same matrix everywhere.
\<close>

definition example_wm_feat :: "(real, real list, nat) world_model" where
  "example_wm_feat = \<lparr>wm_config = example_config,
     wm_rssm = \<lparr>get_feat = (\<lambda>z. [z, 2 * z]),
                img_step = (\<lambda>k (states, feats, actions) action. states)\<rparr>,
     heads = [''decoder'' \<mapsto> 0, ''reward'' \<mapsto> 1, ''discount'' \<mapsto> 2],
     head_mean = (\<lambda>h f. 1/2), iso_reg = 1/10\<rparr>"

definition example_batch :: "string \<rightharpoonup> tensor" where
  "example_batch = example_obs(''action'' \<mapsto> \<lparr>dtype = tf_float float32, vals = [0, 1]\<rparr>,
     ''is_first'' \<mapsto> \<lparr>dtype = tf_bool, vals = [1, 0]\<rparr>)"

definition example_loss_nets :: "(nat, unit) loss_networks" where
  "example_loss_nets = \<lparr>kl_loss_out = (\<lambda>state data. Scalar 3),
     post_feat = (\<lambda>state data. replicate 20 (replicate 20 [1, 2])),
     head_dists = (\<lambda>head feat. if head = 1 then [(''reward'', (\<lambda>x. [[-1, -3]]))] else []),
     estim_obs_jacobian = (\<lambda>head z. [[1, 1], [0, 1]]),
     model_opt = (\<lambda>loss. [])\<rparr>"

definition example_draws :: draws where
  "example_draws = \<lparr>shuffle_sample = rev [0..<400], shuffle_perm = [0], alpha = [9/10],
     direction = [[1, 0]]\<rparr>"


section \<open>Properties\<close>

subsection \<open>Elementwise arithmetic\<close>

lemma vadd_nth: "i < length u \<Longrightarrow> i < length v \<Longrightarrow> vadd u v ! i = u ! i + v ! i"
  by (simp add: vadd_def)
lemma vmul_nth: "i < length u \<Longrightarrow> i < length v \<Longrightarrow> vmul u v ! i = u ! i * v ! i"
  by (simp add: vmul_def)
lemma smul_nth: "i < length v \<Longrightarrow> smul c v ! i = c * v ! i"
  by (simp add: smul_def)
lemma length_vadd: "length (vadd u v) = min (length u) (length v)"
  by (simp add: vadd_def)
lemma length_vmul: "length (vmul u v) = min (length u) (length v)"
  by (simp add: vmul_def)
lemma length_smul: "length (smul c v) = length v"
  by (simp add: smul_def)

subsection \<open>The bootstrapped return\<close>

lemma length_lambda_return:
  "length val = length reward \<Longrightarrow> length pcont = length reward \<Longrightarrow>
   length (lambda_return reward val pcont b lam) = length reward"
  by (induction reward val pcont b lam rule: lambda_return.induct) (auto simp: Let_def)

lemma lambda_return_nth:
  "length val = length reward \<Longrightarrow> length pcont = length reward \<Longrightarrow> t < length reward \<Longrightarrow>
   lambda_return reward val pcont b lam ! t =
     vadd (reward ! t) (vmul (pcont ! t)
       (vadd (smul (1 - lam) (if Suc t < length reward then val ! Suc t else b))
             (smul lam (if Suc t < length reward
                        then lambda_return reward val pcont b lam ! Suc t else b))))"
proof (induction reward val pcont b lam arbitrary: t rule: lambda_return.induct)
  case (1 r reward v val d pcont bootstrap lam)
  show ?case
  proof (cases t)
    case 0
    have "length (lambda_return reward val pcont bootstrap lam) = length reward"
      using "1.prems" by (simp add: length_lambda_return)
    then show ?thesis using 0 "1.prems"
      by (cases val; cases "lambda_return reward val pcont bootstrap lam"; cases reward) (auto simp: Let_def)
  next
    case (Suc n)
    then show ?thesis using "1.prems" "1.IH"[of n] by (simp add: Let_def)
  qed
qed simp_all

lemma width_lambda_return:
  "length val = length reward \<Longrightarrow> length pcont = length reward \<Longrightarrow>
   \<forall>row \<in> set reward \<union> set val \<union> set pcont. length row = N \<Longrightarrow> length b = N \<Longrightarrow>
   \<forall>row \<in> set (lambda_return reward val pcont b lam). length row = N"
proof (induction reward val pcont b lam rule: lambda_return.induct)
  case (1 r reward v val d pcont bootstrap lam)
  then have IH: "\<forall>row \<in> set (lambda_return reward val pcont bootstrap lam). length row = N"
    by simp
  have "length (case val of [] \<Rightarrow> bootstrap | v' # _ \<Rightarrow> v') = N"
    using "1.prems" by (cases val) auto
  moreover have "length (case lambda_return reward val pcont bootstrap lam of [] \<Rightarrow> bootstrap | g # _ \<Rightarrow> g) = N"
    using IH "1.prems" by (cases "lambda_return reward val pcont bootstrap lam") auto
  ultimately show ?case using IH "1.prems"
    by (simp add: Let_def length_vadd length_vmul length_smul)
qed simp_all

lemma lambda_return_entry:
  assumes len: "length val = length reward" "length pcont = length reward"
    and rect: "\<forall>row \<in> set reward \<union> set val \<union> set pcont. length row = N" "length b = N"
    and t: "t < length reward" and i: "i < N"
  shows "lambda_return reward val pcont b lam ! t ! i =
           reward ! t ! i + pcont ! t ! i *
             ((1 - lam) * (if Suc t < length reward then val ! Suc t ! i else b ! i)
              + lam * (if Suc t < length reward
                       then lambda_return reward val pcont b lam ! Suc t ! i else b ! i))"
proof -
  let ?G = "lambda_return reward val pcont b lam"
  let ?nv = "if Suc t < length reward then val ! Suc t else b"
  let ?ng = "if Suc t < length reward then ?G ! Suc t else b"
  have lenG: "length ?G = length reward" using len by (rule length_lambda_return)
  have wG: "\<forall>row \<in> set ?G. length row = N"
    using len rect by (rule width_lambda_return)
  have wr: "length (reward ! t) = N" and wd: "length (pcont ! t) = N"
    using rect t len by auto
  have wnv: "length ?nv = N" using rect len by auto
  have wng: "length ?ng = N" using rect wG lenG by auto
  have "?G ! t = vadd (reward ! t) (vmul (pcont ! t)
          (vadd (smul (1 - lam) ?nv) (smul lam ?ng)))"
    using len t by (rule lambda_return_nth)
  then have "?G ! t ! i = reward ! t ! i + pcont ! t ! i * ((1 - lam) * ?nv ! i + lam * ?ng ! i)"
    using wr wd wnv wng i
    by (simp add: vadd_nth vmul_nth smul_nth length_vadd length_vmul length_smul)
  then show ?thesis by (simp split: if_splits)
qed

lemma lambda_return_td:
  assumes len: "length val = length reward" "length pcont = length reward"
    and rect: "\<forall>row \<in> set reward \<union> set val \<union> set pcont. length row = N" "length b = N"
    and t: "t < length reward" and i: "i < N"
  shows "lambda_return reward val pcont b 0 ! t ! i =
           reward ! t ! i + pcont ! t ! i *
             (if Suc t < length reward then val ! Suc t ! i else b ! i)"
  using lambda_return_entry[OF len rect t i, of 0] by simp

lemma lambda_return_mc:
  assumes len: "length val = length reward" "length pcont = length reward"
    and rect: "\<forall>row \<in> set reward \<union> set val \<union> set pcont. length row = N" "length b = N"
    and i: "i < N"
  shows "t < length reward \<Longrightarrow>
         lambda_return reward val pcont b 1 ! t ! i =
           (\<Sum>k = t..<length reward. (\<Prod>j = t..<k. pcont ! j ! i) * reward ! k ! i)
           + (\<Prod>j = t..<length reward. pcont ! j ! i) * b ! i"
proof (induction "length reward - t" arbitrary: t)
  case 0
  then show ?case by simp
next
  case (Suc n)
  let ?T = "length reward"
  let ?G = "lambda_return reward val pcont b 1"
  have step: "?G ! t ! i = reward ! t ! i + pcont ! t ! i *
      (if Suc t < ?T then ?G ! Suc t ! i else b ! i)"
    using lambda_return_entry[OF len rect Suc.prems i, of 1] by simp
  show ?case
  proof (cases "Suc t < ?T")
    case True
    have n: "n = ?T - Suc t" using Suc.hyps(2) by simp
    have IH: "?G ! Suc t ! i =
        (\<Sum>k = Suc t..<?T. (\<Prod>j = Suc t..<k. pcont ! j ! i) * reward ! k ! i)
        + (\<Prod>j = Suc t..<?T. pcont ! j ! i) * b ! i"
      using Suc.hyps(1)[OF n True] .
    have s: "(\<Sum>k = t..<?T. (\<Prod>j = t..<k. pcont ! j ! i) * reward ! k ! i)
        = reward ! t ! i + (\<Sum>k = Suc t..<?T. (\<Prod>j = t..<k. pcont ! j ! i) * reward ! k ! i)"
      using Suc.prems by (simp add: sum.atLeast_Suc_lessThan)
    have p: "\<And>k. Suc t \<le> k \<Longrightarrow> (\<Prod>j = t..<k. pcont ! j ! i) = pcont ! t ! i * (\<Prod>j = Suc t..<k. pcont ! j ! i)"
      by (simp add: prod.atLeast_Suc_lessThan)
    have s2: "(\<Sum>k = Suc t..<?T. (\<Prod>j = t..<k. pcont ! j ! i) * reward ! k ! i)
        = pcont ! t ! i * (\<Sum>k = Suc t..<?T. (\<Prod>j = Suc t..<k. pcont ! j ! i) * reward ! k ! i)"
      unfolding sum_distrib_left
      by (rule sum.cong) (simp_all add: p mult.assoc)
    have p2: "(\<Prod>j = t..<?T. pcont ! j ! i) = pcont ! t ! i * (\<Prod>j = Suc t..<?T. pcont ! j ! i)"
      using True by (simp add: p)
    show ?thesis using True step IH s s2 p2 by (simp add: algebra_simps)
  next
    case False
    then have "?T = Suc t" using Suc.prems by simp
    then show ?thesis using step by simp
  qed
qed

text \<open>
  Claim C1. For a trajectory of \<open>T + 1\<close> steps over \<open>N\<close> batch items,
  \<open>ActorCritic.target\<close> returns \<open>T\<close> targets. With \<open>lambda_ = 0\<close> the target of
  step \<open>t\<close> is the 1-step TD target \<open>reward[t] + discount[t] * value[t+1]\<close>; with
  \<open>lambda_ = 1\<close> it is the discounted Monte-Carlo return of the rewards from \<open>t\<close> on,
  with the value of the last step, the bootstrap, as the tail.
\<close>

theorem target_lambda_extremes:
  assumes len: "length (seq_feat seq) = Suc T" "length (seq_reward seq) = Suc T"
      "length (seq_discount seq) = Suc T"
    and rect: "\<forall>row \<in> set (seq_reward seq) \<union> set (seq_discount seq). length row = N"
      "\<forall>row \<in> set (seq_feat seq). length row = N"
    and t: "t < T" and i: "i < N"
  shows "(\<exists>tg m. target 0 value_fn seq = Inr (tg, m) \<and> length tg = T \<and>
            tg ! t ! i = seq_reward seq ! t ! i
               + seq_discount seq ! t ! i * value_fn (seq_feat seq ! Suc t ! i))
       \<and> (\<exists>tg m. target 1 value_fn seq = Inr (tg, m) \<and> length tg = T \<and>
            tg ! t ! i =
              (\<Sum>k = t..<T. (\<Prod>j = t..<k. seq_discount seq ! j ! i) * seq_reward seq ! k ! i)
              + (\<Prod>j = t..<T. seq_discount seq ! j ! i) * value_fn (seq_feat seq ! T ! i))"
proof -
  let ?val = "map (map value_fn) (seq_feat seq)"
  let ?R = "butlast (seq_reward seq)" and ?V = "butlast ?val"
    and ?D = "butlast (seq_discount seq)" and ?b = "last ?val"
  have ne: "?val \<noteq> []" using len by auto
  have lens: "length ?V = length ?R" "length ?D = length ?R" "length ?R = T"
    using len by simp_all
  have rectB: "\<forall>row \<in> set ?R \<union> set ?V \<union> set ?D. length row = N"
    using rect by (auto dest!: in_set_butlastD)
  have b: "?b = map value_fn (seq_feat seq ! T)"
    using len ne by (simp add: last_conv_nth)
  have wb: "length ?b = N" using rect(2) len b by simp
  have tR: "t < length ?R" using t lens by simp
  have tgt: "\<And>lam. target lam value_fn seq =
      Inr (lambda_return ?R ?V ?D ?b lam,
           [(''critic_slow'', tmean ?val),
            (''critic_target'', tmean (lambda_return ?R ?V ?D ?b lam))])"
    using ne by (simp add: target_def Let_def)
  have lenG: "\<And>lam. length (lambda_return ?R ?V ?D ?b lam) = T"
    using length_lambda_return[OF lens(1,2)] lens(3) by simp
  have Rn: "\<And>k. k < T \<Longrightarrow> ?R ! k = seq_reward seq ! k"
    and Dn: "\<And>k. k < T \<Longrightarrow> ?D ! k = seq_discount seq ! k"
    using len by (simp_all add: nth_butlast)
  have nv: "(if Suc t < length ?R then ?V ! Suc t ! i else ?b ! i)
      = value_fn (seq_feat seq ! Suc t ! i)"
  proof (cases "Suc t < T")
    case True
    then show ?thesis using len rect(2) i lens by (simp add: nth_butlast)
  next
    case False
    then have "Suc t = T" using t by simp
    then show ?thesis using b rect(2) len i lens by auto
  qed
  have td: "lambda_return ?R ?V ?D ?b 0 ! t ! i = seq_reward seq ! t ! i
      + seq_discount seq ! t ! i * value_fn (seq_feat seq ! Suc t ! i)"
    using lambda_return_td[OF lens(1,2) rectB wb tR i] nv Rn[OF t] Dn[OF t] by simp
  have bi: "?b ! i = value_fn (seq_feat seq ! T ! i)"
    using b rect(2) len i by auto
  have mc: "lambda_return ?R ?V ?D ?b 1 ! t ! i =
      (\<Sum>k = t..<T. (\<Prod>j = t..<k. seq_discount seq ! j ! i) * seq_reward seq ! k ! i)
      + (\<Prod>j = t..<T. seq_discount seq ! j ! i) * value_fn (seq_feat seq ! T ! i)"
  proof -
    have "lambda_return ?R ?V ?D ?b 1 ! t ! i =
      (\<Sum>k = t..<T. (\<Prod>j = t..<k. ?D ! j ! i) * ?R ! k ! i)
      + (\<Prod>j = t..<T. ?D ! j ! i) * ?b ! i"
      using lambda_return_mc[OF lens(1,2) rectB wb i tR] lens(3) by simp
    also have "(\<Sum>k = t..<T. (\<Prod>j = t..<k. ?D ! j ! i) * ?R ! k ! i)
       = (\<Sum>k = t..<T. (\<Prod>j = t..<k. seq_discount seq ! j ! i) * seq_reward seq ! k ! i)"
      by (intro sum.cong prod.cong refl arg_cong2[where f="(*)"]) (simp_all add: Rn Dn)
    also have "(\<Prod>j = t..<T. ?D ! j ! i) = (\<Prod>j = t..<T. seq_discount seq ! j ! i)"
      by (intro prod.cong refl) (simp add: Dn)
    finally show ?thesis using bi by simp
  qed
  show ?thesis using tgt lenG td mc by simp
qed

theorem target_lambda_extremes_witness:
  "(\<exists>tg m. target 0 (\<lambda>f. f) example_seq = Inr (tg, m) \<and> length tg = 2 \<and>
       tg ! 0 ! 1 = 2 + 1/2 * 30)
   \<and> (\<exists>tg m. target 1 (\<lambda>f. f) example_seq = Inr (tg, m) \<and> length tg = 2 \<and>
       tg ! 0 ! 1 = 2 + 1/2 * 2 + 1/2 * 1/2 * 40)"
  using target_lambda_extremes[of example_seq 2 2 0 1 "\<lambda>f. f"]
  by (simp add: example_seq_def numeral_2_eq_2 atLeastLessThanSuc)

subsection \<open>Imagination\<close>

lemma imagine_loop_lengths:
  "imagine_loop rs ops policy k n (states, feats, actions) = (states', feats', actions') \<Longrightarrow>
   length states' = length states + n \<and> length feats' = length feats + n \<and>
   length actions' = length actions + n"
proof (induction n arbitrary: k states feats actions)
  case 0
  then show ?case by simp
next
  case (Suc n)
  from Suc.prems have "imagine_loop rs ops policy (Suc k) n
      (states @ [img_step rs k (last states, last feats, last actions)
                   (dist_sample ops k (map policy (last feats)))],
       feats @ [map (get_feat rs) (img_step rs k (last states, last feats, last actions)
                   (dist_sample ops k (map policy (last feats))))],
       actions @ [dist_sample ops k (map policy (last feats))]) = (states', feats', actions')"
    by (simp add: Let_def)
  from Suc.IH[OF this] show ?case by simp
qed

lemma imagine_loop_prefix:
  "imagine_loop rs ops policy k n (states, feats, actions) = (states', feats', actions') \<Longrightarrow>
   take (length feats) feats' = feats \<and> take (length states) states' = states \<and>
   take (length actions) actions' = actions"
proof (induction n arbitrary: k states feats actions)
  case 0
  then show ?case by simp
next
  case (Suc n)
  let ?a = "dist_sample ops k (map policy (last feats))"
  let ?s = "img_step rs k (last states, last feats, last actions) ?a"
  from Suc.prems have "imagine_loop rs ops policy (Suc k) n
      (states @ [?s], feats @ [map (get_feat rs) ?s], actions @ [?a]) = (states', feats', actions')"
    by (simp add: Let_def)
  from Suc.IH[OF this]
  have "take (Suc (length feats)) feats' = feats @ [map (get_feat rs) ?s]"
    "take (Suc (length states)) states' = states @ [?s]"
    "take (Suc (length actions)) actions' = actions @ [?a]" by simp_all
  then have "take (length feats) (take (Suc (length feats)) feats') = feats"
    "take (length states) (take (Suc (length states)) states') = states"
    "take (length actions) (take (Suc (length actions)) actions') = actions"
    by simp_all
  then show ?case by (simp add: min_def)
qed

lemma length_cumprod_from: "length (cumprod_from a xs) = length xs"
  by (induction xs arbitrary: a) (simp_all add: Let_def)

lemma cumprod_from_nth:
  "t < length xs \<Longrightarrow>
   cumprod_from a xs ! t = vmul (if t = 0 then a else cumprod_from a xs ! (t - 1)) (xs ! t)"
proof (induction xs arbitrary: a t)
  case Nil
  then show ?case by simp
next
  case (Cons x xs)
  show ?case
  proof (cases t)
    case 0
    then show ?thesis by (simp add: Let_def)
  next
    case (Suc n)
    then have "n < length xs" using Cons.prems by simp
    from Cons.IH[OF this, of "vmul a x"] Suc show ?thesis
      by (cases n) (simp_all add: Let_def)
  qed
qed

lemma length_cumprod: "length (cumprod xs) = length xs"
  by (cases xs) (simp_all add: length_cumprod_from)

lemma cumprod_Cons_nth:
  "t < length xs \<Longrightarrow> cumprod (x # xs) ! Suc t = vmul (cumprod (x # xs) ! t) (xs ! t)"
  using cumprod_from_nth[of t xs x] by (cases t) simp_all

lemma width_cumprod_from:
  "length a = N \<Longrightarrow> \<forall>row \<in> set xs. length row = N \<Longrightarrow>
   \<forall>row \<in> set (cumprod_from a xs). length row = N"
proof (induction xs arbitrary: a)
  case Nil
  then show ?case by simp
next
  case (Cons x xs)
  have "length (vmul a x) = N" using Cons.prems by (simp add: vmul_def)
  from Cons.IH[OF this] Cons.prems show ?case by (simp add: Let_def vmul_def)
qed

lemma weight_recurrence:
  assumes "disc \<noteq> []"
  shows "length (cumprod (ones_like (take 1 disc) @ butlast disc)) = length disc"
    and "cumprod (ones_like (take 1 disc) @ butlast disc) ! 0 = map (\<lambda>_. 1) (disc ! 0)"
    and "Suc t < length disc \<Longrightarrow>
         cumprod (ones_like (take 1 disc) @ butlast disc) ! Suc t =
         vmul (cumprod (ones_like (take 1 disc) @ butlast disc) ! t) (disc ! t)"
    and "\<forall>row \<in> set disc. length row = N \<Longrightarrow>
         \<forall>row \<in> set (cumprod (ones_like (take 1 disc) @ butlast disc)). length row = N"
proof -
  obtain d ds where d: "disc = d # ds" using assms by (cases disc) auto
  have w: "ones_like (take 1 disc) @ butlast disc = map (\<lambda>_. 1) d # butlast disc"
    by (simp add: d ones_like_def)
  show "length (cumprod (ones_like (take 1 disc) @ butlast disc)) = length disc"
    unfolding w using assms by (simp add: length_cumprod_from)
  show "cumprod (ones_like (take 1 disc) @ butlast disc) ! 0 = map (\<lambda>_. 1) (disc ! 0)"
    unfolding w by (simp add: d)
  show "cumprod (ones_like (take 1 disc) @ butlast disc) ! Suc t =
         vmul (cumprod (ones_like (take 1 disc) @ butlast disc) ! t) (disc ! t)"
    if "Suc t < length disc"
  proof -
    have "t < length (butlast disc)" using that by simp
    from cumprod_Cons_nth[OF this] show ?thesis
      unfolding w using that by (simp add: nth_butlast)
  qed
  show "\<forall>row \<in> set (cumprod (ones_like (take 1 disc) @ butlast disc)). length row = N"
    if "\<forall>row \<in> set disc. length row = N"
  proof -
    have "\<forall>row \<in> set (butlast disc). length row = N"
      using that by (auto dest: in_set_butlastD)
    moreover have "length (map (\<lambda>_. 1::real) d) = N" using that d by simp
    ultimately show ?thesis unfolding w
      using width_cumprod_from[of "map (\<lambda>_. 1) d" N "butlast disc"] by simp
  qed
qed

lemma imagine_unfold:
  assumes L: "imagine_loop (wm_rssm wm) ops policy 0 H
      ([flatten start], [map (get_feat (wm_rssm wm)) (flatten start)],
       [zeros_like (map (\<lambda>f. dist_mode ops (policy f))
          (map (get_feat (wm_rssm wm)) (flatten start)))]) = (states, feats, actions)"
  shows "length feats = Suc H"
    and "feats ! 0 = map (get_feat (wm_rssm wm)) (flatten start)"
    and "imagine wm ops policy start is_terminal H =
      (case (case heads wm ''discount'' of
               Some h \<Rightarrow>
                 (case is_terminal of
                    Some it \<Rightarrow>
                      if length (flatten it) = length (flatten start)
                      then Inr (map (\<lambda>x. (1 - x) * discount (wm_config wm)) (flatten it)
                                # drop 1 (map (map (head_mean wm h)) feats))
                      else Inl InvalidArgumentError
                  | None \<Rightarrow> Inr (map (map (head_mean wm h)) feats))
             | None \<Rightarrow> Inr (map (map (\<lambda>_. discount (wm_config wm))) feats)) of
         Inl e \<Rightarrow> Inl e
       | Inr disc \<Rightarrow>
           Inr \<lparr>seq_state = states, seq_feat = feats, seq_action = actions,
                seq_discount = disc,
                seq_weight = cumprod (ones_like (take 1 disc) @ butlast disc)\<rparr>)"
proof -
  show len: "length feats = Suc H" using imagine_loop_lengths[OF L] by simp
  show f0: "feats ! 0 = map (get_feat (wm_rssm wm)) (flatten start)"
    using imagine_loop_prefix[OF L] by (metis length_Cons list.size(3) nth_Cons_0 nth_take zero_less_one One_nat_def)
  have ne: "feats \<noteq> []" using len by auto
  have hd: "\<And>g. length (hd (map (map g) feats)) = length (flatten start)"
    using ne f0 by (simp add: hd_map hd_conv_nth)
  show "imagine wm ops policy start is_terminal H = (case (case heads wm ''discount'' of
               Some h \<Rightarrow>
                 (case is_terminal of
                    Some it \<Rightarrow>
                      if length (flatten it) = length (flatten start)
                      then Inr (map (\<lambda>x. (1 - x) * discount (wm_config wm)) (flatten it)
                                # drop 1 (map (map (head_mean wm h)) feats))
                      else Inl InvalidArgumentError
                  | None \<Rightarrow> Inr (map (map (head_mean wm h)) feats))
             | None \<Rightarrow> Inr (map (map (\<lambda>_. discount (wm_config wm))) feats)) of
         Inl e \<Rightarrow> Inl e
       | Inr disc \<Rightarrow>
           Inr \<lparr>seq_state = states, seq_feat = feats, seq_action = actions,
                seq_discount = disc,
                seq_weight = cumprod (ones_like (take 1 disc) @ butlast disc)\<rparr>)"
    unfolding imagine_def Let_def L
    by (simp add: hd split: option.splits)
qed

lemma imagine_loop_result:
  "\<exists>states feats actions.
    imagine_loop (wm_rssm wm) ops policy 0 H
      ([flatten start], [map (get_feat (wm_rssm wm)) (flatten start)],
       [zeros_like (map (\<lambda>f. dist_mode ops (policy f))
          (map (get_feat (wm_rssm wm)) (flatten start)))]) = (states, feats, actions)"
  by (cases "imagine_loop (wm_rssm wm) ops policy 0 H
      ([flatten start], [map (get_feat (wm_rssm wm)) (flatten start)],
       [zeros_like (map (\<lambda>f. dist_mode ops (policy f))
          (map (get_feat (wm_rssm wm)) (flatten start)))])") simp

lemma nth_Cons_drop1: "1 \<le> t \<Longrightarrow> t < length xs \<Longrightarrow> (x # drop 1 xs) ! t = xs ! t"
  by (cases t) simp_all

lemma imagine_first_step_override:
  assumes h: "heads wm ''discount'' = Some h"
    and it: "length (flatten it) = length (flatten start)"
  shows "\<exists>seq. imagine wm ops policy start (Some it) H = Inr seq \<and>
         length (seq_feat seq) = Suc H \<and> length (seq_discount seq) = Suc H \<and>
         seq_discount seq ! 0 = map (\<lambda>x. (1 - x) * discount (wm_config wm)) (flatten it) \<and>
         (\<forall>t. 1 \<le> t \<and> t \<le> H \<longrightarrow>
            seq_discount seq ! t = map (head_mean wm h) (seq_feat seq ! t))"
proof -
  obtain states feats actions where L:
    "imagine_loop (wm_rssm wm) ops policy 0 H
      ([flatten start], [map (get_feat (wm_rssm wm)) (flatten start)],
       [zeros_like (map (\<lambda>f. dist_mode ops (policy f))
          (map (get_feat (wm_rssm wm)) (flatten start)))]) = (states, feats, actions)"
    using imagine_loop_result by blast
  note len = imagine_unfold(1)[OF L]
  define disc where "disc = map (\<lambda>x. (1 - x) * discount (wm_config wm)) (flatten it)
                       # drop 1 (map (map (head_mean wm h)) feats)"
  define seq where "seq = \<lparr>seq_state = states, seq_feat = feats, seq_action = actions,
        seq_discount = disc,
        seq_weight = cumprod (ones_like (take 1 disc) @ butlast disc)\<rparr>"
  have r: "imagine wm ops policy start (Some it) H = Inr seq"
    unfolding imagine_unfold(3)[OF L] using h it by (simp add: seq_def disc_def)
  have f: "seq_feat seq = feats" and d: "seq_discount seq = disc"
    by (simp_all add: seq_def)
  have l1: "length (seq_feat seq) = Suc H" using len f by simp
  have l2: "length (seq_discount seq) = Suc H" using len d by (simp add: disc_def)
  have d0: "seq_discount seq ! 0 = map (\<lambda>x. (1 - x) * discount (wm_config wm)) (flatten it)"
    by (simp add: d disc_def)
  have dt: "seq_discount seq ! t = map (head_mean wm h) (seq_feat seq ! t)"
    if "1 \<le> t \<and> t \<le> H" for t
  proof -
    have "disc ! t = map (map (head_mean wm h)) feats ! t"
      unfolding disc_def using that len by (intro nth_Cons_drop1) simp_all
    then show ?thesis using that len by (simp add: d f)
  qed
  from r l1 l2 d0 dt show ?thesis by blast
qed

lemma imagine_constant_discount:
  assumes h: "heads wm ''discount'' = None"
  shows "\<exists>seq. imagine wm ops policy start is_terminal H = Inr seq \<and>
         length (seq_feat seq) = Suc H \<and> length (seq_discount seq) = Suc H \<and>
         (\<forall>t. t \<le> H \<longrightarrow>
            seq_discount seq ! t =
              replicate (length (seq_feat seq ! t)) (discount (wm_config wm)))"
proof -
  obtain states feats actions where L:
    "imagine_loop (wm_rssm wm) ops policy 0 H
      ([flatten start], [map (get_feat (wm_rssm wm)) (flatten start)],
       [zeros_like (map (\<lambda>f. dist_mode ops (policy f))
          (map (get_feat (wm_rssm wm)) (flatten start)))]) = (states, feats, actions)"
    using imagine_loop_result by blast
  note len = imagine_unfold(1)[OF L]
  define disc where "disc = map (map (\<lambda>_. discount (wm_config wm))) feats"
  define seq where "seq = \<lparr>seq_state = states, seq_feat = feats, seq_action = actions,
        seq_discount = disc,
        seq_weight = cumprod (ones_like (take 1 disc) @ butlast disc)\<rparr>"
  have r: "imagine wm ops policy start is_terminal H = Inr seq"
    unfolding imagine_unfold(3)[OF L] using h by (simp add: seq_def disc_def)
  have f: "seq_feat seq = feats" and d: "seq_discount seq = disc"
    by (simp_all add: seq_def)
  have l1: "length (seq_feat seq) = Suc H" using len f by simp
  have l2: "length (seq_discount seq) = Suc H" using len d by (simp add: disc_def)
  have dt: "seq_discount seq ! t = replicate (length (seq_feat seq ! t)) (discount (wm_config wm))"
    if "t \<le> H" for t
    using that len by (simp add: d f disc_def map_replicate_const)
  from r l1 l2 dt show ?thesis by blast
qed

lemma example_start:
  "map (get_feat example_rssm) (flatten [[1, 2]]) = [2, 4]"
  "zeros_like (map (\<lambda>f. dist_mode example_ops f) [2, 4]) = [[0], [0]]"
  "flatten [[1, 2 :: real]] = [1, 2]"
  "flatten [[1, 0 :: real]] = [1, 0]"
  by (simp_all add: example_rssm_def example_ops_def flatten_def zeros_like_def)

lemma example_imagine_terminal:
  "imagine example_wm example_ops (\<lambda>f. f) [[1, 2]] (Some [[1, 0]]) 3 =
     Inr \<lparr>seq_state = [[1, 2], [2, 3], [3, 4], [4, 5]],
        seq_feat = [[2, 4], [4, 6], [6, 8], [8, 10]],
        seq_action = [[[0], [0]], [[2], [4]], [[5], [7]], [[8], [10]]],
        seq_discount = [[0, 9 / 10], [1 / 2, 1 / 2], [1 / 2, 1 / 2], [1 / 2, 1 / 2]],
        seq_weight = [[1, 1], [0, 9 / 10], [0, 9 / 20], [0, 9 / 40]]\<rparr>"
proof -
  have L: "imagine_loop (wm_rssm example_wm) example_ops (\<lambda>f. f) 0 3
      ([flatten [[1, 2]]], [map (get_feat (wm_rssm example_wm)) (flatten [[1, 2]])],
       [zeros_like (map (\<lambda>f. dist_mode example_ops f)
          (map (get_feat (wm_rssm example_wm)) (flatten [[1, 2]])))])
   = ([[1, 2], [2, 3], [3, 4], [4, 5]], [[2, 4], [4, 6], [6, 8], [8, 10]],
      [[[0], [0]], [[2], [4]], [[5], [7]], [[8], [10]]])"
    by (simp add: example_wm_def example_rssm_def example_ops_def flatten_def zeros_like_def
        eval_nat_numeral)
  show ?thesis
    unfolding imagine_unfold(3)[OF L]
    by (simp add: example_wm_def example_config_def example_start ones_like_def vmul_def)
qed

lemma example_imagine_no_terminal:
  "imagine example_wm example_ops (\<lambda>f. f) [[1, 2]] None 3 =
     Inr \<lparr>seq_state = [[1, 2], [2, 3], [3, 4], [4, 5]],
        seq_feat = [[2, 4], [4, 6], [6, 8], [8, 10]],
        seq_action = [[[0], [0]], [[2], [4]], [[5], [7]], [[8], [10]]],
        seq_discount = [[1 / 2, 1 / 2], [1 / 2, 1 / 2], [1 / 2, 1 / 2], [1 / 2, 1 / 2]],
        seq_weight = [[1, 1], [1 / 2, 1 / 2], [1 / 4, 1 / 4], [1 / 8, 1 / 8]]\<rparr>"
proof -
  have L: "imagine_loop (wm_rssm example_wm) example_ops (\<lambda>f. f) 0 3
      ([flatten [[1, 2]]], [map (get_feat (wm_rssm example_wm)) (flatten [[1, 2]])],
       [zeros_like (map (\<lambda>f. dist_mode example_ops f)
          (map (get_feat (wm_rssm example_wm)) (flatten [[1, 2]])))])
   = ([[1, 2], [2, 3], [3, 4], [4, 5]], [[2, 4], [4, 6], [6, 8], [8, 10]],
      [[[0], [0]], [[2], [4]], [[5], [7]], [[8], [10]]])"
    by (simp add: example_wm_def example_rssm_def example_ops_def flatten_def zeros_like_def
        eval_nat_numeral)
  show ?thesis
    unfolding imagine_unfold(3)[OF L]
    by (simp add: example_wm_def example_config_def example_start ones_like_def vmul_def)
qed

lemma example_imagine_no_head:
  "imagine example_wm_no_discount example_ops (\<lambda>f. f) [[1, 2]] (Some [[1, 0]]) 3 =
     Inr \<lparr>seq_state = [[1, 2], [2, 3], [3, 4], [4, 5]],
        seq_feat = [[2, 4], [4, 6], [6, 8], [8, 10]],
        seq_action = [[[0], [0]], [[2], [4]], [[5], [7]], [[8], [10]]],
        seq_discount = [[9 / 10, 9 / 10], [9 / 10, 9 / 10], [9 / 10, 9 / 10], [9 / 10, 9 / 10]],
        seq_weight = [[1, 1], [9 / 10, 9 / 10], [81 / 100, 81 / 100], [729 / 1000, 729 / 1000]]\<rparr>"
proof -
  have L: "imagine_loop (wm_rssm example_wm_no_discount) example_ops (\<lambda>f. f) 0 3
      ([flatten [[1, 2]]], [map (get_feat (wm_rssm example_wm_no_discount)) (flatten [[1, 2]])],
       [zeros_like (map (\<lambda>f. dist_mode example_ops f)
          (map (get_feat (wm_rssm example_wm_no_discount)) (flatten [[1, 2]])))])
   = ([[1, 2], [2, 3], [3, 4], [4, 5]], [[2, 4], [4, 6], [6, 8], [8, 10]],
      [[[0], [0]], [[2], [4]], [[5], [7]], [[8], [10]]])"
    by (simp add: example_wm_def example_wm_no_discount_def example_rssm_def example_ops_def
        flatten_def zeros_like_def eval_nat_numeral)
  show ?thesis
    unfolding imagine_unfold(3)[OF L]
    by (simp add: example_wm_def example_wm_no_discount_def example_config_def example_start
        ones_like_def vmul_def)
qed

text \<open>
  Claim C2. With a discount head and \<open>is_terminal\<close> given (one entry per flattened batch
  item), \<open>WorldModel.imagine\<close> returns a discount sequence of horizon + 1 steps whose
  first step is \<open>(1 - is_terminal) * config.discount\<close> and whose steps 1..horizon are the
  head's prediction on the imagined features; for \<open>is_terminal = [1, 0]\<close>, discount
  0.9 and a head predicting 0.5 everywhere the first step is \<open>[0, 0.9]\<close> and every later
  entry is 0.5. Without a discount head every entry of every step is \<open>config.discount\<close>.
\<close>

theorem imagine_discount:
  "(heads wm ''discount'' = Some h \<and> length (flatten it) = length (flatten start) \<longrightarrow>
      (\<exists>seq. imagine wm ops policy start (Some it) H = Inr seq \<and>
         length (seq_feat seq) = Suc H \<and> length (seq_discount seq) = Suc H \<and>
         seq_discount seq ! 0 = map (\<lambda>x. (1 - x) * discount (wm_config wm)) (flatten it) \<and>
         (\<forall>t. 1 \<le> t \<and> t \<le> H \<longrightarrow>
            seq_discount seq ! t = map (head_mean wm h) (seq_feat seq ! t)) \<and>
         (flatten it = [1, 0] \<and> discount (wm_config wm) = 9/10 \<and> (\<forall>f. head_mean wm h f = 1/2) \<longrightarrow>
            seq_discount seq ! 0 = [0, 9/10] \<and>
            (\<forall>t. 1 \<le> t \<and> t \<le> H \<longrightarrow>
               seq_discount seq ! t = replicate (length (seq_feat seq ! t)) (1/2)))))
   \<and> (heads wm ''discount'' = None \<longrightarrow>
      (\<exists>seq. imagine wm ops policy start is_terminal H = Inr seq \<and>
         length (seq_feat seq) = Suc H \<and> length (seq_discount seq) = Suc H \<and>
         (\<forall>t. t \<le> H \<longrightarrow>
            seq_discount seq ! t =
              replicate (length (seq_feat seq ! t)) (discount (wm_config wm)))))"
proof (intro conjI impI)
  assume a: "heads wm ''discount'' = Some h \<and> length (flatten it) = length (flatten start)"
  from imagine_first_step_override[of wm h it start ops policy H] a
  obtain seq where s: "imagine wm ops policy start (Some it) H = Inr seq"
      "length (seq_feat seq) = Suc H" "length (seq_discount seq) = Suc H"
      "seq_discount seq ! 0 = map (\<lambda>x. (1 - x) * discount (wm_config wm)) (flatten it)"
      "\<forall>t. 1 \<le> t \<and> t \<le> H \<longrightarrow> seq_discount seq ! t = map (head_mean wm h) (seq_feat seq ! t)"
    by blast
  have scen: "seq_discount seq ! 0 = [0, 9/10] \<and>
            (\<forall>t. 1 \<le> t \<and> t \<le> H \<longrightarrow>
               seq_discount seq ! t = replicate (length (seq_feat seq ! t)) (1/2))"
    if c: "flatten it = [1, 0] \<and> discount (wm_config wm) = 9/10 \<and> (\<forall>f. head_mean wm h f = 1/2)"
  proof -
    have hm: "head_mean wm h = (\<lambda>_. 1/2)" using c by (simp add: fun_eq_iff)
    have "seq_discount seq ! 0 = [0, 9/10]" using s(4) c by simp
    moreover have "seq_discount seq ! t = replicate (length (seq_feat seq ! t)) (1/2)"
      if "1 \<le> t \<and> t \<le> H" for t
      using s(5) that by (simp add: hm map_replicate_const)
    ultimately show ?thesis by blast
  qed
  from s scen show "\<exists>seq. imagine wm ops policy start (Some it) H = Inr seq \<and>
         length (seq_feat seq) = Suc H \<and> length (seq_discount seq) = Suc H \<and>
         seq_discount seq ! 0 = map (\<lambda>x. (1 - x) * discount (wm_config wm)) (flatten it) \<and>
         (\<forall>t. 1 \<le> t \<and> t \<le> H \<longrightarrow>
            seq_discount seq ! t = map (head_mean wm h) (seq_feat seq ! t)) \<and>
         (flatten it = [1, 0] \<and> discount (wm_config wm) = 9/10 \<and> (\<forall>f. head_mean wm h f = 1/2) \<longrightarrow>
            seq_discount seq ! 0 = [0, 9/10] \<and>
            (\<forall>t. 1 \<le> t \<and> t \<le> H \<longrightarrow>
               seq_discount seq ! t = replicate (length (seq_feat seq ! t)) (1/2)))"
    by (intro exI[of _ seq] conjI impI) blast+
next
  assume "heads wm ''discount'' = None"
  then show "\<exists>seq. imagine wm ops policy start is_terminal H = Inr seq \<and>
         length (seq_feat seq) = Suc H \<and> length (seq_discount seq) = Suc H \<and>
         (\<forall>t. t \<le> H \<longrightarrow>
            seq_discount seq ! t =
              replicate (length (seq_feat seq ! t)) (discount (wm_config wm)))"
    by (rule imagine_constant_discount)
qed

theorem imagine_discount_witness:
  "(\<exists>seq. imagine example_wm example_ops (\<lambda>f. f) [[1, 2]] (Some [[1, 0]]) 3 = Inr seq \<and>
      seq_discount seq ! 0 = [0, 9/10] \<and> seq_discount seq ! 1 = [1/2, 1/2] \<and>
      seq_discount seq ! 2 = [1/2, 1/2] \<and> seq_discount seq ! 3 = [1/2, 1/2])
   \<and> (\<exists>seq. imagine example_wm_no_discount example_ops (\<lambda>f. f) [[1, 2]] (Some [[1, 0]]) 3
              = Inr seq \<and>
      seq_discount seq = [[9/10, 9/10], [9/10, 9/10], [9/10, 9/10], [9/10, 9/10]])"
proof -
  have h: "heads example_wm ''discount'' = Some 2 \<and>
      length (flatten [[1, 0 :: real]]) = length (flatten [[1, 2 :: real]])"
    by (simp add: example_wm_def flatten_def)
  have c: "flatten [[1, 0 :: real]] = [1, 0] \<and> discount (wm_config example_wm) = 9/10 \<and>
      (\<forall>f. head_mean example_wm 2 f = 1/2)"
    by (simp add: example_wm_def example_config_def flatten_def)
  from imagine_discount[of example_wm 2 "[[1, 0]]" "[[1, 2]]" example_ops "\<lambda>f. f" 3
      "Some [[1, 0]]"] h c
  obtain seq where s: "imagine example_wm example_ops (\<lambda>f. f) [[1, 2]] (Some [[1, 0]]) 3 = Inr seq"
    "seq_discount seq ! 0 = [0, 9/10]"
    "\<forall>t. 1 \<le> t \<and> t \<le> 3 \<longrightarrow> seq_discount seq ! t = replicate (length (seq_feat seq ! t)) (1/2)"
    by blast
  have f: "seq_feat seq = [[2, 4], [4, 6], [6, 8], [8, 10]]"
    using s(1) unfolding example_imagine_terminal by auto
  have "seq_discount seq ! 1 = [1/2, 1/2]" "seq_discount seq ! 2 = [1/2, 1/2]"
    "seq_discount seq ! 3 = [1/2, 1/2]"
    using s(3) f by (simp_all add: eval_nat_numeral)
  with s show ?thesis by (simp add: example_imagine_no_head)
qed

text \<open>
  Claim C9. With a discount head and \<open>is_terminal = None\<close>, no step is overridden: the
  discount of every step, the first included, is the head's prediction on the imagined
  features.
\<close>

theorem imagine_no_terminal:
  assumes "heads wm ''discount'' = Some h"
  shows "\<exists>seq. imagine wm ops policy start None H = Inr seq \<and>
      length (seq_feat seq) = Suc H \<and>
      seq_discount seq = map (map (head_mean wm h)) (seq_feat seq) \<and>
      (\<forall>t. t \<le> H \<longrightarrow> (\<forall>i. i < length (seq_feat seq ! t) \<longrightarrow>
          seq_discount seq ! t ! i = head_mean wm h (seq_feat seq ! t ! i)))"
proof -
  obtain states feats actions where L:
    "imagine_loop (wm_rssm wm) ops policy 0 H
      ([flatten start], [map (get_feat (wm_rssm wm)) (flatten start)],
       [zeros_like (map (\<lambda>f. dist_mode ops (policy f))
          (map (get_feat (wm_rssm wm)) (flatten start)))]) = (states, feats, actions)"
    using imagine_loop_result by blast
  note len = imagine_unfold(1)[OF L]
  define disc where "disc = map (map (head_mean wm h)) feats"
  define seq where "seq = \<lparr>seq_state = states, seq_feat = feats, seq_action = actions,
        seq_discount = disc,
        seq_weight = cumprod (ones_like (take 1 disc) @ butlast disc)\<rparr>"
  have r: "imagine wm ops policy start None H = Inr seq"
    unfolding imagine_unfold(3)[OF L] using assms by (simp add: seq_def disc_def)
  have f: "seq_feat seq = feats" and d: "seq_discount seq = disc"
    by (simp_all add: seq_def)
  have l1: "length (seq_feat seq) = Suc H" using len f by simp
  have eq: "seq_discount seq = map (map (head_mean wm h)) (seq_feat seq)"
    by (simp add: d f disc_def)
  have ent: "seq_discount seq ! t ! i = head_mean wm h (seq_feat seq ! t ! i)"
    if "t \<le> H" "i < length (seq_feat seq ! t)" for t i
    using that l1 by (simp add: eq)
  from r l1 eq ent show ?thesis by blast
qed

theorem imagine_no_terminal_witness:
  "\<exists>seq. imagine example_wm example_ops (\<lambda>f. f) [[1, 2]] None 3 = Inr seq \<and>
      seq_discount seq = [[1/2, 1/2], [1/2, 1/2], [1/2, 1/2], [1/2, 1/2]]"
proof -
  have h: "heads example_wm ''discount'' = Some 2" by (simp add: example_wm_def)
  from imagine_no_terminal[OF h, of example_ops "\<lambda>f. f" "[[1, 2]]" 3]
  obtain seq where s: "imagine example_wm example_ops (\<lambda>f. f) [[1, 2]] None 3 = Inr seq"
    "seq_discount seq = map (map (head_mean example_wm 2)) (seq_feat seq)" by blast
  have "seq_feat seq = [[2, 4], [4, 6], [6, 8], [8, 10]]"
    using s(1) unfolding example_imagine_no_terminal by auto
  with s show ?thesis by (simp add: example_wm_def)
qed

text \<open>
  Claim C3. For every sequence that \<open>WorldModel.imagine\<close> returns, the weights have one
  row per step, \<open>weight[0]\<close> is all ones, and \<open>weight[t] = weight[t-1] * discount[t-1]\<close>
  elementwise for \<open>1 \<le> t \<le> horizon\<close>; when every discount row has \<open>N\<close> entries, so has
  every weight row, and the equations hold entry by entry.
\<close>

theorem imagine_weight:
  assumes r: "imagine wm ops policy start is_terminal H = Inr seq"
  shows "length (seq_discount seq) = Suc H \<and> length (seq_weight seq) = Suc H
     \<and> seq_weight seq ! 0 = map (\<lambda>_. 1) (seq_discount seq ! 0)
     \<and> (\<forall>t. 1 \<le> t \<and> t \<le> H \<longrightarrow>
          seq_weight seq ! t = vmul (seq_weight seq ! (t - 1)) (seq_discount seq ! (t - 1)))
     \<and> ((\<forall>row \<in> set (seq_discount seq). length row = N) \<longrightarrow>
          (\<forall>row \<in> set (seq_weight seq). length row = N) \<and>
          (\<forall>i. i < N \<longrightarrow> seq_weight seq ! 0 ! i = 1 \<and>
             (\<forall>t. 1 \<le> t \<and> t \<le> H \<longrightarrow>
                seq_weight seq ! t ! i
                  = seq_weight seq ! (t - 1) ! i * seq_discount seq ! (t - 1) ! i)))"
proof -
  obtain states feats actions where L:
    "imagine_loop (wm_rssm wm) ops policy 0 H
      ([flatten start], [map (get_feat (wm_rssm wm)) (flatten start)],
       [zeros_like (map (\<lambda>f. dist_mode ops (policy f))
          (map (get_feat (wm_rssm wm)) (flatten start)))]) = (states, feats, actions)"
    using imagine_loop_result by blast
  note len = imagine_unfold(1)[OF L]
  define disc where "disc = seq_discount seq"
  have d: "seq_discount seq = disc" by (simp add: disc_def)
  have wl: "seq_weight seq = cumprod (ones_like (take 1 disc) @ butlast disc)
      \<and> length disc = Suc H"
  proof (cases "heads wm ''discount''")
    case None
    with r[unfolded imagine_unfold(3)[OF L]] len show ?thesis
      by (auto simp: disc_def)
  next
    case (Some h)
    show ?thesis
    proof (cases is_terminal)
      case None
      with Some r[unfolded imagine_unfold(3)[OF L]] len show ?thesis
        by (auto simp: disc_def)
    next
      case (Some it)
      show ?thesis
      proof (cases "length (flatten it) = length (flatten start)")
        case True
        with Some \<open>heads wm ''discount'' = Some h\<close> r[unfolded imagine_unfold(3)[OF L]] len
        show ?thesis by (auto simp: disc_def)
      next
        case False
        with Some \<open>heads wm ''discount'' = Some h\<close> r[unfolded imagine_unfold(3)[OF L]]
        show ?thesis by simp
      qed
    qed
  qed
  then have w: "seq_weight seq = cumprod (ones_like (take 1 disc) @ butlast disc)"
    and ld: "length disc = Suc H" by simp_all
  from ld have ne: "disc \<noteq> []" by auto
  note wr = weight_recurrence[OF ne]
  have lw: "length (seq_weight seq) = Suc H" using wr(1) ld w by simp
  have w0: "seq_weight seq ! 0 = map (\<lambda>_. 1) (seq_discount seq ! 0)"
    using wr(2) by (simp add: w d)
  have wt: "seq_weight seq ! t = vmul (seq_weight seq ! (t - 1)) (seq_discount seq ! (t - 1))"
    if tt: "1 \<le> t \<and> t \<le> H" for t
  proof -
    obtain n where n: "t = Suc n" using tt not0_implies_Suc[of t] by auto
    then have "Suc n < length disc" using tt ld by simp
    from wr(3)[OF this] show ?thesis by (simp add: w d n)
  qed
  have rect: "(\<forall>row \<in> set (seq_weight seq). length row = N) \<and>
          (\<forall>i. i < N \<longrightarrow> seq_weight seq ! 0 ! i = 1 \<and>
             (\<forall>t. 1 \<le> t \<and> t \<le> H \<longrightarrow>
                seq_weight seq ! t ! i
                  = seq_weight seq ! (t - 1) ! i * seq_discount seq ! (t - 1) ! i))"
    if rd: "\<forall>row \<in> set (seq_discount seq). length row = N"
  proof -
    have rw: "\<forall>row \<in> set (seq_weight seq). length row = N"
      using wr(4)[of N] rd by (simp add: w d)
    have wd: "\<And>t. t \<le> H \<Longrightarrow> length (seq_discount seq ! t) = N"
      using rd ld d by simp
    have ww: "\<And>t. t \<le> H \<Longrightarrow> length (seq_weight seq ! t) = N"
      using rw lw by simp
    have e0: "seq_weight seq ! 0 ! i = 1" if "i < N" for i
      using w0 wd[of 0] that by simp
    have et: "seq_weight seq ! t ! i
        = seq_weight seq ! (t - 1) ! i * seq_discount seq ! (t - 1) ! i"
      if i: "i < N" and tt: "1 \<le> t \<and> t \<le> H" for i t
    proof -
      have le: "t - 1 \<le> H" using tt by arith
      have "i < length (seq_weight seq ! (t - 1))" "i < length (seq_discount seq ! (t - 1))"
        using ww[OF le] wd[OF le] i by simp_all
      then show ?thesis using wt[OF tt] by (simp add: vmul_nth)
    qed
    from rw e0 et show ?thesis by blast
  qed
  from ld lw w0 wt rect d show ?thesis by blast
qed

theorem imagine_weight_witness:
  "\<exists>seq. imagine example_wm example_ops (\<lambda>f. f) [[1, 2]] (Some [[1, 0]]) 3 = Inr seq \<and>
     seq_weight seq ! 0 = [1, 1] \<and>
     seq_weight seq ! 1 = vmul (seq_weight seq ! 0) (seq_discount seq ! 0) \<and>
     seq_weight seq ! 2 ! 1 = seq_weight seq ! 1 ! 1 * seq_discount seq ! 1 ! 1 \<and>
     seq_weight seq = [[1, 1], [0, 9 / 10], [0, 9 / 20], [0, 9 / 40]]"
  using imagine_weight[OF example_imagine_terminal, of 2]
  by (simp add: example_imagine_terminal vmul_def)

subsection \<open>Preprocessing\<close>



lemma preprocess_value_log:
  "vals (tmap f x) = map f (vals x)" "dtype (astype dt x) = tf_float dt"
  "vals (astype dt x) = vals x"
  by (simp_all add: astype_def tmap_def)





subsection \<open>The slow target\<close>



lemma assign_mix_rest:
  assumes "length ss \<le> j" "j < length ds"
  shows "assign_mix mix ss ds ! j = ds ! j"
  using assms by (simp add: assign_mix_def nth_append)









lemma example_ac_fields:
  "ac_config example_ac = example_config\<lparr>slow_target_update' := 2, slow_target_fraction := 1/4\<rparr>"
  "target_critic example_ac = Some [[0, 0], [0]]"
  "updates example_ac = 0"
  by (simp_all add: example_ac_def ActorCritic_init_def example_config_def Let_def)


subsection \<open>The losses\<close>

lemma imagine_feat_length:
  assumes "imagine wm ops policy start is_terminal H = Inr seq"
  shows "length (seq_feat seq) = Suc H"
proof -
  obtain states feats actions where L:
    "imagine_loop (wm_rssm wm) ops policy 0 H
      ([flatten start], [map (get_feat (wm_rssm wm)) (flatten start)],
       [zeros_like (map (\<lambda>f. dist_mode ops (policy f))
          (map (get_feat (wm_rssm wm)) (flatten start)))]) = (states, feats, actions)"
    using imagine_loop_result by blast
  have "seq_feat seq = feats"
    using assms[unfolded imagine_unfold(3)[OF L]]
    by (auto split: option.splits if_splits)
  then show ?thesis using imagine_unfold(1)[OF L] by simp
qed

lemma actor_loss_unsupported:
  assumes "actor_grad (ac_config ac) \<notin> {''dynamics'', ''reinforce'', ''both''}"
  shows "actor_loss nets ops step ac seq tgt = Inl (NotImplementedError (actor_grad (ac_config ac)))"
  using assms by (simp add: actor_loss_def Let_def)

lemma actor_loss_supported:
  assumes "actor_grad (ac_config ac) \<in> {''dynamics'', ''reinforce'', ''both''}"
  shows "\<exists>r. actor_loss nets ops step ac seq tgt = Inr r"
proof -
  consider "actor_grad (ac_config ac) = ''dynamics''" | "actor_grad (ac_config ac) = ''reinforce''"
    | "actor_grad (ac_config ac) = ''both''" using assms by auto
  then show ?thesis
    by cases (simp_all add: actor_loss_def Let_def)
qed

lemma train_unsupported:
  assumes g: "actor_grad (ac_config ac) \<notin> {''dynamics'', ''reinforce'', ''both''}"
    and im: "imagine world_model ops (actor_net nets (actor ac)) start is_terminal
               (imag_horizon (ac_config ac)) = Inr seq0"
  shows "train nets ops step ac world_model start is_terminal reward_fn
           = Inl (NotImplementedError (actor_grad (ac_config ac)))"
proof -
  obtain normed mets1 norm' where n:
    "rewnorm_call nets (rewnorm ac) (reward_fn seq0) = (normed, mets1, norm')"
    using prod_cases3 by blast
  let ?ac1 = "ac\<lparr>rewnorm := norm'\<rparr>"
  let ?seq = "seq.extend seq0 (rseq.fields normed)"
  have f: "seq_feat ?seq = seq_feat seq0" by (simp add: seq.defs rseq.defs)
  have "seq_feat seq0 \<noteq> []" using imagine_feat_length[OF im] by auto
  then obtain tg mets2 where t: "target (discount_lambda (ac_config ?ac1))
                     (critic_mode nets (target_variables ?ac1)) ?seq = Inr (tg, mets2)"
    by (simp add: target_def Let_def f)
  have a: "actor_loss nets ops step ?ac1 ?seq tg
      = Inl (NotImplementedError (actor_grad (ac_config ac)))"
    using actor_loss_unsupported[of ?ac1 nets ops step ?seq tg] g by simp
  show ?thesis
    unfolding train_def Let_def im using n t a by simp
qed

text \<open>
  Claim C6. \<open>ActorCritic.actor_loss\<close> raises if and only if \<open>config.actor_grad\<close> is
  none of \<open>dynamics\<close>, \<open>reinforce\<close> and \<open>both\<close>, and what it raises is
  \<open>NotImplementedError(actor_grad)\<close>. \<open>ActorCritic.train\<close> does not catch it: whenever
  the imagination returns, the training step ends with the same error. The constructor
  does not raise for it; it resolves \<open>auto\<close> to a supported mode and keeps every other
  value, so the error comes up when the actor loss is computed.
\<close>

theorem actor_grad_error:
  "((\<exists>e. actor_loss nets ops step ac seq tgt = Inl e) \<longleftrightarrow>
      actor_grad (ac_config ac) \<notin> {''dynamics'', ''reinforce'', ''both''})
   \<and> (actor_grad (ac_config ac) \<notin> {''dynamics'', ''reinforce'', ''both''} \<longrightarrow>
        actor_loss nets ops step ac seq tgt
          = Inl (NotImplementedError (actor_grad (ac_config ac)))
        \<and> (\<forall>world_model start is_terminal reward_fn.
             (\<exists>seq0. imagine world_model ops (actor_net nets (actor ac)) start is_terminal
                       (imag_horizon (ac_config ac)) = Inr (seq0 :: ('z list, 'f) seq)) \<longrightarrow>
             train nets ops step ac (world_model :: ('z, 'f, 'h) world_model) start is_terminal
                 reward_fn
               = Inl (NotImplementedError (actor_grad (ac_config ac)))))
   \<and> (actor_grad (ac_config (ActorCritic_init cfg discrete a0 c0 t0 n0))
         \<notin> {''dynamics'', ''reinforce'', ''both''}
        \<longleftrightarrow> actor_grad cfg \<notin> {''dynamics'', ''reinforce'', ''both'', ''auto''})"
proof (intro conjI)
  show "(\<exists>e. actor_loss nets ops step ac seq tgt = Inl e) \<longleftrightarrow>
      actor_grad (ac_config ac) \<notin> {''dynamics'', ''reinforce'', ''both''}"
    using actor_loss_unsupported[of ac nets ops step seq tgt]
      actor_loss_supported[of ac nets ops step seq tgt] by auto
  show "actor_grad (ac_config ac) \<notin> {''dynamics'', ''reinforce'', ''both''} \<longrightarrow>
        actor_loss nets ops step ac seq tgt
          = Inl (NotImplementedError (actor_grad (ac_config ac)))
        \<and> (\<forall>world_model start is_terminal reward_fn.
             (\<exists>seq0. imagine world_model ops (actor_net nets (actor ac)) start is_terminal
                       (imag_horizon (ac_config ac)) = Inr (seq0 :: ('z list, 'f) seq)) \<longrightarrow>
             train nets ops step ac (world_model :: ('z, 'f, 'h) world_model) start is_terminal
                 reward_fn
               = Inl (NotImplementedError (actor_grad (ac_config ac))))"
    using actor_loss_unsupported[of ac nets ops step seq tgt] train_unsupported[of ac _ ops nets]
    by blast
  show "actor_grad (ac_config (ActorCritic_init cfg discrete a0 c0 t0 n0))
         \<notin> {''dynamics'', ''reinforce'', ''both''}
        \<longleftrightarrow> actor_grad cfg \<notin> {''dynamics'', ''reinforce'', ''both'', ''auto''}"
    by (simp add: ActorCritic_init_def Let_def)
qed

text \<open>The example object with a gradient mode that the actor loss does not know.\<close>

theorem actor_grad_error_witness:
  "actor_loss example_nets example_ops 0 example_ac_unsupported example_seq [[1, 1], [1, 1]]
     = Inl (NotImplementedError ''pathwise'')
   \<and> train example_nets example_ops 0 example_ac_unsupported example_wm [[1, 2]]
       (Some [[1, 0]]) (\<lambda>seq. seq_discount seq)
     = Inl (NotImplementedError ''pathwise'')
   \<and> (\<exists>r. actor_loss example_nets example_ops 0 example_ac example_seq [[1, 1], [1, 1]] = Inr r)"
proof -
  have g: "actor_grad (ac_config example_ac_unsupported) = ''pathwise''"
    by (simp add: example_ac_unsupported_def)
  have h: "imag_horizon (ac_config example_ac_unsupported) = 3"
    by (simp add: example_ac_unsupported_def example_ac_fields example_config_def)
  have a: "actor_net example_nets (actor example_ac_unsupported) = (\<lambda>f. f)"
    by (simp add: example_nets_def)
  have u: "actor_grad (ac_config example_ac_unsupported) \<notin> {''dynamics'', ''reinforce'', ''both''}"
    by (simp add: g)
  have im: "\<exists>seq0. imagine example_wm example_ops
      (actor_net example_nets (actor example_ac_unsupported)) [[1, 2]] (Some [[1, 0]])
      (imag_horizon (ac_config example_ac_unsupported)) = Inr seq0"
    unfolding a h example_imagine_terminal by blast
  note th = actor_grad_error[of example_nets example_ops 0 example_ac_unsupported example_seq
      "[[1, 1], [1, 1]]", where ?'z = real and ?'h = nat]
  note c2 = th[THEN conjunct2, THEN conjunct1, THEN mp, OF u]
  have 1: "actor_loss example_nets example_ops 0 example_ac_unsupported example_seq
      [[1, 1], [1, 1]] = Inl (NotImplementedError ''pathwise'')"
    using c2[THEN conjunct1] by (simp only: g)
  have 3: "train example_nets example_ops 0 example_ac_unsupported example_wm [[1, 2]]
       (Some [[1, 0]]) (\<lambda>seq. seq_discount seq) = Inl (NotImplementedError ''pathwise'')"
    using c2[THEN conjunct2, rule_format, OF im] by (simp only: g)
  have s: "actor_grad (ac_config example_ac) \<in> {''dynamics'', ''reinforce'', ''both''}"
    by (simp add: example_ac_fields example_config_def)
  have 4: "\<exists>r. actor_loss example_nets example_ops 0 example_ac example_seq [[1, 1], [1, 1]] = Inr r"
    using s by (rule actor_loss_supported)
  from 1 3 4 show ?thesis by (intro conjI)
qed

lemma rectI: "length x = T \<Longrightarrow> \<forall>row \<in> set x. length row = N \<Longrightarrow> rect T N x"
  by (simp add: rect_def)

lemma rect_length: "rect T N x \<Longrightarrow> length x = T"
  by (simp add: rect_def)

lemma rect_width: "rect T N x \<Longrightarrow> t < T \<Longrightarrow> length (x ! t) = N"
  by (simp add: rect_def)

lemma rect_map: "rect T N x \<Longrightarrow> rect T N (map (map f) x)"
  by (simp add: rect_def)

lemma map_map_entry: "rect T N x \<Longrightarrow> t < T \<Longrightarrow> b < N \<Longrightarrow> map (map f) x ! t ! b = f (x ! t ! b)"
  by (simp add: rect_def)

lemma rect_butlast2: "rect (Suc H) N x \<Longrightarrow> rect (H - 1) N (butlast (butlast x))"
  by (auto simp: rect_def dest!: in_set_butlastD)

lemma butlast2_nth: "t < length x - 2 \<Longrightarrow> butlast (butlast x) ! t = x ! t"
  by (simp add: nth_butlast)

lemma rect_drop1: "rect H N x \<Longrightarrow> rect (H - 1) N (drop 1 x)"
  by (auto simp: rect_def dest!: in_set_dropD)

lemma drop1_nth: "Suc t < length x \<Longrightarrow> drop 1 x ! t = x ! Suc t"
  by simp

lemma rect_butlast_drop1: "rect (Suc H) N x \<Longrightarrow> rect (H - 1) N (butlast (drop 1 x))"
  by (auto simp: rect_def dest!: in_set_butlastD in_set_dropD)

lemma butlast_drop1_nth: "Suc (Suc t) < length x \<Longrightarrow> butlast (drop 1 x) ! t = x ! Suc t"
  by (simp add: nth_butlast)

lemma rect_map2:
  assumes "rect T N x" "rect T N y"
  shows "rect T N (map2 (map2 f) x y)"
  using assms by (auto simp: rect_def set_zip)

lemma map2_entry:
  assumes "rect T N x" "rect T N y" "t < T" "b < N"
  shows "map2 (map2 f) x y ! t ! b = f (x ! t ! b) (y ! t ! b)"
  using assms by (simp add: rect_def)

lemma tmul_map2: "tmul x y = map2 (map2 (*)) x y"
  and tadd_map2: "tadd x y = map2 (map2 (+)) x y"
  and tsub_map2: "tsub x y = map2 (map2 (-)) x y"
  and tsmul_map: "tsmul c x = map (map ((*) c)) x"
  by (simp_all add: tmul_def tadd_def tsub_def tsmul_def vmul_def vadd_def vsub_def smul_def
      fun_eq_iff)

lemma sum_list_rect:
  "rect T N (x :: real list list) \<Longrightarrow> sum_list (concat x) = (\<Sum>t<T. \<Sum>b<N. x ! t ! b)"
proof -
  assume r: "rect T N x"
  have "sum_list (concat x) = sum_list (map sum_list x)" by (induction x) simp_all
  also have "\<dots> = (\<Sum>t<length x. sum_list (x ! t))"
    by (simp add: sum_list_sum_nth atLeast0LessThan)
  also have "\<dots> = (\<Sum>t<T. \<Sum>b<N. x ! t ! b)"
    using r by (auto simp: rect_def sum_list_sum_nth atLeast0LessThan intro!: sum.cong)
  finally show ?thesis .
qed

lemma length_concat_rect: "rect T N x \<Longrightarrow> length (concat x) = T * N"
proof -
  assume r: "rect T N x"
  have "map length x = replicate T N"
    using r by (auto simp: rect_def intro!: nth_equalityI)
  then show ?thesis by (simp add: length_concat sum_list_replicate)
qed

lemma tmean_rect:
  assumes "rect T N x"
  shows "tmean x = (if T = 0 \<or> N = 0 then None
                    else Some ((\<Sum>t<T. \<Sum>b<N. x ! t ! b) / real (T * N)))"
proof -
  have "concat x = [] \<longleftrightarrow> T = 0 \<or> N = 0"
    using length_concat_rect[OF assms] by (metis length_0_conv mult_is_0)
  then show ?thesis
    by (simp add: tmean_def sum_list_rect[OF assms] length_concat_rect[OF assms])
qed

lemma rect_tsmul: "rect T N x \<Longrightarrow> rect T N (tsmul c x)"
  unfolding tsmul_map by (rule rect_map)

lemma tsmul_entry: "rect T N x \<Longrightarrow> t < T \<Longrightarrow> b < N \<Longrightarrow> tsmul c x ! t ! b = c * x ! t ! b"
  unfolding tsmul_map by (rule map_map_entry)

lemma rect_tadd: "rect T N x \<Longrightarrow> rect T N y \<Longrightarrow> rect T N (tadd x y)"
  unfolding tadd_map2 by (rule rect_map2)

lemma tadd_entry:
  "rect T N x \<Longrightarrow> rect T N y \<Longrightarrow> t < T \<Longrightarrow> b < N \<Longrightarrow> tadd x y ! t ! b = x ! t ! b + y ! t ! b"
  unfolding tadd_map2 by (rule map2_entry)

lemma rect_tsub: "rect T N x \<Longrightarrow> rect T N y \<Longrightarrow> rect T N (tsub x y)"
  unfolding tsub_map2 by (rule rect_map2)

lemma tsub_entry:
  "rect T N x \<Longrightarrow> rect T N y \<Longrightarrow> t < T \<Longrightarrow> b < N \<Longrightarrow> tsub x y ! t ! b = x ! t ! b - y ! t ! b"
  unfolding tsub_map2 by (rule map2_entry)

lemma rect_tmul: "rect T N x \<Longrightarrow> rect T N y \<Longrightarrow> rect T N (tmul x y)"
  unfolding tmul_map2 by (rule rect_map2)

lemma tmul_entry:
  "rect T N x \<Longrightarrow> rect T N y \<Longrightarrow> t < T \<Longrightarrow> b < N \<Longrightarrow> tmul x y ! t ! b = x ! t ! b * y ! t ! b"
  unfolding tmul_map2 by (rule map2_entry)

lemma butlast2_entry:
  assumes "rect (Suc H) N x" "t < H - 1"
  shows "butlast (butlast x) ! t = x ! t"
proof -
  have "t < length x - 2" using assms by (simp add: rect_def)
  then show ?thesis by (rule butlast2_nth)
qed

lemma loss_of_objective:
  assumes W: "rect (Suc H) N weight" and O: "rect (H - 1) N obj0" and E: "rect (H - 1) N ent"
  shows "map_option uminus
           (tmean (tmul (butlast (butlast weight)) (tadd obj0 (tsmul es ent)))) =
         (if H < 2 \<or> N = 0 then None
          else Some (- ((\<Sum>t<H - 1. \<Sum>b<N. weight ! t ! b * (obj0 ! t ! b + es * ent ! t ! b))
                        / real ((H - 1) * N))))"
proof -
  let ?X = "tmul (butlast (butlast weight)) (tadd obj0 (tsmul es ent))"
  have W2: "rect (H - 1) N (butlast (butlast weight))" using W by (rule rect_butlast2)
  have S: "rect (H - 1) N (tadd obj0 (tsmul es ent))"
    using O E by (intro rect_tadd rect_tsmul)
  have X: "rect (H - 1) N ?X" using W2 S by (rule rect_tmul)
  have e: "?X ! t ! b = weight ! t ! b * (obj0 ! t ! b + es * ent ! t ! b)"
    if "t < H - 1" "b < N" for t b
  proof -
    have "?X ! t ! b = butlast (butlast weight) ! t ! b * tadd obj0 (tsmul es ent) ! t ! b"
      using W2 S that by (rule tmul_entry)
    also have "butlast (butlast weight) ! t = weight ! t"
      using W that(1) by (rule butlast2_entry)
    also have "tadd obj0 (tsmul es ent) ! t ! b = obj0 ! t ! b + tsmul es ent ! t ! b"
      using O rect_tsmul[OF E] that by (rule tadd_entry)
    also have "tsmul es ent ! t ! b = es * ent ! t ! b"
      using E that by (rule tsmul_entry)
    finally show ?thesis .
  qed
  have s: "(\<Sum>t<H - 1. \<Sum>b<N. ?X ! t ! b)
      = (\<Sum>t<H - 1. \<Sum>b<N. weight ! t ! b * (obj0 ! t ! b + es * ent ! t ! b))"
    by (intro sum.cong refl) (simp add: e)
  have z: "H - 1 = 0 \<longleftrightarrow> H < 2" by arith
  show ?thesis
    unfolding tmean_rect[OF X] s z by simp
qed

lemma actor_loss_value:
  assumes F: "rect (Suc H) N (seq_feat seq)" and A: "rect (Suc H) N (seq_action seq)"
    and W: "rect (Suc H) N (seq_weight seq)" and G: "rect H N tgt"
    and g: "actor_grad (ac_config ac) \<in> {''dynamics'', ''reinforce'', ''both''}"
  shows "\<exists>mets. actor_loss nets ops step ac seq tgt = Inr
     ((if H < 2 \<or> N = 0 then None
       else Some (- ((\<Sum>t<H - 1. \<Sum>b<N. seq_weight seq ! t ! b *
          ((if actor_grad (ac_config ac) = ''dynamics'' then tgt ! Suc t ! b
            else if actor_grad (ac_config ac) = ''reinforce'' then
              dist_log_prob ops (actor_net nets (actor ac) (seq_feat seq ! t ! b))
                  (seq_action seq ! Suc t ! b)
                * (tgt ! Suc t ! b
                   - critic_mode nets (target_variables ac) (seq_feat seq ! t ! b))
            else schedule nets (actor_grad_mix (ac_config ac)) step * tgt ! Suc t ! b
                 + (1 - schedule nets (actor_grad_mix (ac_config ac)) step)
                   * (dist_log_prob ops (actor_net nets (actor ac) (seq_feat seq ! t ! b))
                        (seq_action seq ! Suc t ! b)
                      * (tgt ! Suc t ! b
                         - critic_mode nets (target_variables ac) (seq_feat seq ! t ! b))))
           + schedule nets (actor_ent (ac_config ac)) step
             * dist_entropy ops (actor_net nets (actor ac) (seq_feat seq ! t ! b))))
          / real ((H - 1) * N)))), mets)"
proof -
  let ?T = "H - 1"
  let ?A = "actor_net nets (actor ac)"
  let ?V = "critic_mode nets (target_variables ac)"
  let ?F2 = "butlast (butlast (seq_feat seq))"
  let ?P = "map (map ?A) ?F2"
  let ?ENT = "map (map (dist_entropy ops)) ?P"
  let ?G1 = "drop 1 tgt"
  let ?BL = "map (map ?V) ?F2"
  let ?ADV = "tsub ?G1 ?BL"
  let ?ACT = "butlast (drop 1 (seq_action seq))"
  let ?LP = "map2 (map2 (dist_log_prob ops)) ?P ?ACT"
  let ?R = "tmul ?LP ?ADV"
  let ?mix = "schedule nets (actor_grad_mix (ac_config ac)) step"
  let ?B = "tadd (tsmul ?mix ?G1) (tsmul (1 - ?mix) ?R)"
  let ?es = "schedule nets (actor_ent (ac_config ac)) step"
  have rF2: "rect ?T N ?F2" using F by (rule rect_butlast2)
  have rP: "rect ?T N ?P" using rF2 by (rule rect_map)
  have rENT: "rect ?T N ?ENT" using rP by (rule rect_map)
  have rG1: "rect ?T N ?G1" using G by (rule rect_drop1)
  have rBL: "rect ?T N ?BL" using rF2 by (rule rect_map)
  have rADV: "rect ?T N ?ADV" using rG1 rBL by (rule rect_tsub)
  have rACT: "rect ?T N ?ACT" using A by (rule rect_butlast_drop1)
  have rLP: "rect ?T N ?LP" using rP rACT by (rule rect_map2)
  have rR: "rect ?T N ?R" using rLP rADV by (rule rect_tmul)
  have rB: "rect ?T N ?B" using rG1 rR by (intro rect_tadd rect_tsmul)
  have eF2: "?F2 ! t = seq_feat seq ! t" if "t < ?T" for t
    using F that by (rule butlast2_entry)
  have eP: "?P ! t ! b = ?A (seq_feat seq ! t ! b)" if "t < ?T" "b < N" for t b
    using map_map_entry[OF rF2 that, of ?A] eF2[OF that(1)] by simp
  have eENT: "?ENT ! t ! b = dist_entropy ops (?A (seq_feat seq ! t ! b))"
    if "t < ?T" "b < N" for t b
    using map_map_entry[OF rP that, of "dist_entropy ops"] eP[OF that] by simp
  have eG1: "?G1 ! t = tgt ! Suc t" if "t < ?T" for t
  proof -
    have "Suc t < length tgt" using G that by (simp add: rect_def)
    then show ?thesis by (rule drop1_nth)
  qed
  have eBL: "?BL ! t ! b = ?V (seq_feat seq ! t ! b)" if "t < ?T" "b < N" for t b
    using map_map_entry[OF rF2 that, of ?V] eF2[OF that(1)] by simp
  have eADV: "?ADV ! t ! b = tgt ! Suc t ! b - ?V (seq_feat seq ! t ! b)"
    if "t < ?T" "b < N" for t b
    using tsub_entry[OF rG1 rBL that] eG1[OF that(1)] eBL[OF that] by simp
  have eACT: "?ACT ! t = seq_action seq ! Suc t" if "t < ?T" for t
  proof -
    have "Suc (Suc t) < length (seq_action seq)" using A that by (simp add: rect_def)
    then show ?thesis by (rule butlast_drop1_nth)
  qed
  have eLP: "?LP ! t ! b = dist_log_prob ops (?A (seq_feat seq ! t ! b)) (seq_action seq ! Suc t ! b)"
    if "t < ?T" "b < N" for t b
    using map2_entry[OF rP rACT that, of "dist_log_prob ops"] eP[OF that] eACT[OF that(1)]
    by simp
  have eR: "?R ! t ! b = dist_log_prob ops (?A (seq_feat seq ! t ! b)) (seq_action seq ! Suc t ! b)
      * (tgt ! Suc t ! b - ?V (seq_feat seq ! t ! b))"
    if "t < ?T" "b < N" for t b
    using tmul_entry[OF rLP rADV that] eLP[OF that] eADV[OF that] by simp
  have eB: "?B ! t ! b = ?mix * tgt ! Suc t ! b + (1 - ?mix) *
      (dist_log_prob ops (?A (seq_feat seq ! t ! b)) (seq_action seq ! Suc t ! b)
      * (tgt ! Suc t ! b - ?V (seq_feat seq ! t ! b)))"
    if "t < ?T" "b < N" for t b
    using tadd_entry[OF rect_tsmul[OF rG1] rect_tsmul[OF rR] that]
      tsmul_entry[OF rG1 that] tsmul_entry[OF rR that] eG1[OF that(1)] eR[OF that]
    by simp
  consider (d) "actor_grad (ac_config ac) = ''dynamics''"
    | (r) "actor_grad (ac_config ac) = ''reinforce''"
    | (b) "actor_grad (ac_config ac) = ''both''" using g by auto
  then show ?thesis
  proof cases
    case d
    have v: "actor_loss nets ops step ac seq tgt = Inr
        (map_option uminus (tmean (tmul (butlast (butlast (seq_weight seq)))
            (tadd ?G1 (tsmul ?es ?ENT)))),
         [(''actor_ent'', tmean ?ENT), (''actor_ent_scale'', Some ?es)])"
      using d by (simp add: actor_loss_def Let_def)
    have s: "(\<Sum>t<?T. \<Sum>b<N. seq_weight seq ! t ! b * (?G1 ! t ! b + ?es * ?ENT ! t ! b))
       = (\<Sum>t<?T. \<Sum>b<N. seq_weight seq ! t ! b * (tgt ! Suc t ! b
            + ?es * dist_entropy ops (?A (seq_feat seq ! t ! b))))"
      by (intro sum.cong refl) (simp only: lessThan_iff eG1 eENT)
    show ?thesis
      unfolding v loss_of_objective[OF W rG1 rENT] s using d by simp
  next
    case r
    have v: "actor_loss nets ops step ac seq tgt = Inr
        (map_option uminus (tmean (tmul (butlast (butlast (seq_weight seq)))
            (tadd ?R (tsmul ?es ?ENT)))),
         [(''actor_ent'', tmean ?ENT), (''actor_ent_scale'', Some ?es)])"
      using r by (simp add: actor_loss_def Let_def)
    have s: "(\<Sum>t<?T. \<Sum>b<N. seq_weight seq ! t ! b * (?R ! t ! b + ?es * ?ENT ! t ! b))
       = (\<Sum>t<?T. \<Sum>b<N. seq_weight seq ! t ! b *
            (dist_log_prob ops (?A (seq_feat seq ! t ! b)) (seq_action seq ! Suc t ! b)
               * (tgt ! Suc t ! b - ?V (seq_feat seq ! t ! b))
            + ?es * dist_entropy ops (?A (seq_feat seq ! t ! b))))"
      by (intro sum.cong refl) (simp only: lessThan_iff eR eENT)
    show ?thesis
      unfolding v loss_of_objective[OF W rR rENT] s using r by simp
  next
    case b
    have v: "actor_loss nets ops step ac seq tgt = Inr
        (map_option uminus (tmean (tmul (butlast (butlast (seq_weight seq)))
            (tadd ?B (tsmul ?es ?ENT)))),
         [(''actor_grad_mix'', Some ?mix), (''actor_ent'', tmean ?ENT),
          (''actor_ent_scale'', Some ?es)])"
      using b by (simp add: actor_loss_def Let_def)
    have s: "(\<Sum>t<?T. \<Sum>b<N. seq_weight seq ! t ! b * (?B ! t ! b + ?es * ?ENT ! t ! b))
       = (\<Sum>t<?T. \<Sum>b<N. seq_weight seq ! t ! b *
            (?mix * tgt ! Suc t ! b + (1 - ?mix) *
              (dist_log_prob ops (?A (seq_feat seq ! t ! b)) (seq_action seq ! Suc t ! b)
               * (tgt ! Suc t ! b - ?V (seq_feat seq ! t ! b)))
            + ?es * dist_entropy ops (?A (seq_feat seq ! t ! b))))"
      by (intro sum.cong refl) (simp only: lessThan_iff eB eENT)
    show ?thesis
      unfolding v loss_of_objective[OF W rB rENT] s using b by simp
  qed
qed

text \<open>
  Claim C5. For an imagined sequence of \<open>1 + H\<close> steps over \<open>N\<close> batch items and
  targets of \<open>H\<close> steps, in each of the three gradient modes
  \<open>ActorCritic.actor_loss\<close> returns the negative mean, over the first \<open>H - 1\<close> steps
  and the \<open>N\<close> items, of \<open>weight[t] * (objective[t] + ent_scale * entropy[t])\<close>: the
  last two steps of the sequence are left out, and the weight is the sequence's weight
  (\<open>tf.stop_gradient\<close> keeps its value). The objective of step \<open>t\<close> uses the target
  and the action of step \<open>t + 1\<close>. With \<open>H < 2\<close> or \<open>N = 0\<close> the mean is over no entry
  and the loss is NaN.
\<close>

theorem actor_loss_mean:
  assumes len: "length (seq_feat seq) = Suc H" "length (seq_action seq) = Suc H"
      "length (seq_weight seq) = Suc H" "length tgt = H"
    and wid: "\<forall>row \<in> set (seq_feat seq). length row = N"
      "\<forall>row \<in> set (seq_action seq). length row = N"
      "\<forall>row \<in> set (seq_weight seq). length row = N" "\<forall>row \<in> set tgt. length row = N"
    and g: "actor_grad (ac_config ac) \<in> {''dynamics'', ''reinforce'', ''both''}"
  shows "\<exists>mets. actor_loss nets ops step ac seq tgt = Inr
     ((if H < 2 \<or> N = 0 then None
       else Some (- ((\<Sum>t<H - 1. \<Sum>b<N. seq_weight seq ! t ! b *
          ((if actor_grad (ac_config ac) = ''dynamics'' then tgt ! Suc t ! b
            else if actor_grad (ac_config ac) = ''reinforce'' then
              dist_log_prob ops (actor_net nets (actor ac) (seq_feat seq ! t ! b))
                  (seq_action seq ! Suc t ! b)
                * (tgt ! Suc t ! b
                   - critic_mode nets (target_variables ac) (seq_feat seq ! t ! b))
            else schedule nets (actor_grad_mix (ac_config ac)) step * tgt ! Suc t ! b
                 + (1 - schedule nets (actor_grad_mix (ac_config ac)) step)
                   * (dist_log_prob ops (actor_net nets (actor ac) (seq_feat seq ! t ! b))
                        (seq_action seq ! Suc t ! b)
                      * (tgt ! Suc t ! b
                         - critic_mode nets (target_variables ac) (seq_feat seq ! t ! b))))
           + schedule nets (actor_ent (ac_config ac)) step
             * dist_entropy ops (actor_net nets (actor ac) (seq_feat seq ! t ! b))))
          / real ((H - 1) * N)))), mets)"
  by (rule actor_loss_value[OF rectI[OF len(1) wid(1)] rectI[OF len(2) wid(2)]
        rectI[OF len(3) wid(3)] rectI[OF len(4) wid(4)] g])

theorem actor_loss_mean_witness:
  "\<exists>mets. actor_loss example_nets example_ops 0 example_ac example_seq [[1, 1], [1, 1]]
     = Inr (Some (- (11 / 10)), mets)"
proof -
  have g: "actor_grad (ac_config example_ac) \<in> {''dynamics'', ''reinforce'', ''both''}"
    and d: "actor_grad (ac_config example_ac) = ''dynamics''"
    by (simp_all add: example_ac_fields example_config_def)
  have l: "length (seq_feat example_seq) = Suc 2" "length (seq_action example_seq) = Suc 2"
      "length (seq_weight example_seq) = Suc 2" "length ([[1, 1], [1, 1]] :: tseq) = 2"
    by (simp_all add: example_seq_def)
  have w: "\<forall>row \<in> set (seq_feat example_seq). length row = 2"
      "\<forall>row \<in> set (seq_action example_seq). length row = 2"
      "\<forall>row \<in> set (seq_weight example_seq). length row = 2"
      "\<forall>row \<in> set ([[1, 1], [1, 1]] :: tseq). length row = 2"
    by (simp_all add: example_seq_def)
  have two: "{..<2::nat} = {0, 1}" by auto
  from actor_loss_mean[OF l w g, of example_nets example_ops 0]
  show ?thesis
    by (simp add: d two example_seq_def example_nets_def example_ops_def)
qed

subsection \<open>The training loss\<close>

lemma preprocess_error:
  "preprocess cfg dt obs = Inl e \<Longrightarrow> \<exists>k. e = KeyError k"
  by (auto simp: preprocess_def Let_def split: option.splits)

lemma head_losses_error:
  "head_losses data dists losses = Inl e \<Longrightarrow> \<exists>k. e = KeyError k"
  by (induction data dists losses rule: head_losses.induct) (auto split: option.splits)

lemma all_head_losses_error:
  "all_head_losses nets hs data feat names losses = Inl e \<Longrightarrow> \<exists>k. e = KeyError k"
proof (induction nets hs data feat names losses rule: all_head_losses.induct)
  case (1 nets hs data feat losses)
  then show ?case by simp
next
  case (2 nets hs data feat name names losses)
  show ?case
  proof (cases "hs name")
    case None
    with 2 show ?thesis by simp
  next
    case (Some head)
    show ?thesis
    proof (cases "head_losses data (head_dists nets head feat) losses")
      case (Inl e')
      with 2 Some show ?thesis by (auto dest: head_losses_error)
    next
      case (Inr losses')
      with 2 Some show ?thesis by simp
    qed
  qed
qed

lemma loss_not_scalar:
  assumes "preprocess (wm_config wm) dt data0 = Inr data"
    and "data ''action'' \<noteq> None" "data ''is_first'' \<noteq> None"
    and "shape (kl_loss_out nets state data) \<noteq> []"
  shows "loss wm nets dt rnd data0 state = Inl (AssertionError [])"
  using assms by (simp add: loss_def Let_def)

lemma loss_assertion_only_if:
  assumes "loss wm nets dt rnd data0 state = Inl (AssertionError m)"
  shows "\<exists>data. preprocess (wm_config wm) dt data0 = Inr data \<and>
           shape (kl_loss_out nets state data) \<noteq> []"
proof (cases "preprocess (wm_config wm) dt data0")
  case (Inl e)
  then have "loss wm nets dt rnd data0 state = Inl e" by (simp add: loss_def)
  with assms Inl show ?thesis by (auto dest: preprocess_error)
next
  case (Inr data)
  show ?thesis
  proof (rule ccontr)
    assume "\<not> ?thesis"
    then have sc: "shape (kl_loss_out nets state data) = []" using Inr by simp
    have "\<exists>k. loss wm nets dt rnd data0 state = Inl (KeyError k)
        \<or> (\<exists>r. loss wm nets dt rnd data0 state = Inr r)"
    proof (cases "all_head_losses nets (heads wm) data (post_feat nets state data)
                    [''decoder'', ''reward'', ''discount'']
                    [(''kl'', (case kl_loss_out nets state data of
                                Scalar x \<Rightarrow> Some x | Array _ _ \<Rightarrow> None))]")
      case (Inl e)
      then obtain k where "e = KeyError k" using all_head_losses_error by blast
      with Inl Inr sc show ?thesis
        by (simp add: loss_def Let_def del: all_head_losses.simps)
    next
      case r: (Inr losses1)
      with Inr sc show ?thesis
        by (cases "heads wm ''decoder''")
          (simp_all add: loss_def Let_def del: all_head_losses.simps)
    qed
    with assms show False by auto
  qed
qed

lemma WorldModel_train_error:
  "WorldModel_train wm nets dt rnd data state = Inl e \<longleftrightarrow> loss wm nets dt rnd data state = Inl e"
  by (auto simp: WorldModel_train_def split: sum.splits)

lemma WorldModel_init_cases:
  fixes cfg rs dh rh ch hm ir
  defines "hs \<equiv> (if pred_discount cfg
                  then [''decoder'' \<mapsto> dh, ''reward'' \<mapsto> rh, ''discount'' \<mapsto> ch]
                  else [''decoder'' \<mapsto> dh, ''reward'' \<mapsto> rh])"
  shows "WorldModel_init cfg rs dh rh ch hm ir =
     (case find (\<lambda>name. hs name = None) (grad_heads cfg) of
        Some name \<Rightarrow> Inl (AssertionError name)
      | None \<Rightarrow> Inr \<lparr>wm_config = cfg, wm_rssm = rs, heads = hs, head_mean = hm, iso_reg = ir\<rparr>)"
    and "dom hs = {''decoder'', ''reward''} \<union> (if pred_discount cfg then {''discount''} else {})"
  unfolding hs_def by (auto simp: WorldModel_init_def Let_def)

lemma find_SomeD: "find P xs = Some x \<Longrightarrow> x \<in> set xs \<and> P x"
  by (induction xs) (auto split: if_splits)

lemma find_None_iff_all: "find P xs = None \<longleftrightarrow> (\<forall>x \<in> set xs. \<not> P x)"
  by (induction xs) auto

lemma registered_None:
  "(if pred_discount cfg
    then [''decoder'' \<mapsto> dh, ''reward'' \<mapsto> rh, ''discount'' \<mapsto> ch]
    else [''decoder'' \<mapsto> dh, ''reward'' \<mapsto> rh]) name = None
   \<longleftrightarrow> name \<notin> {''decoder'', ''reward''} \<union> (if pred_discount cfg then {''discount''} else {})"
  by (cases "pred_discount cfg") simp_all

lemma WorldModel_init_result:
  "WorldModel_init cfg rs dh rh ch hm ir =
     (case find (\<lambda>name. name \<notin> {''decoder'', ''reward''}
                          \<union> (if pred_discount cfg then {''discount''} else {}))
             (grad_heads cfg) of
        Some name \<Rightarrow> Inl (AssertionError name)
      | None \<Rightarrow> Inr \<lparr>wm_config = cfg, wm_rssm = rs,
          heads = (if pred_discount cfg
                   then [''decoder'' \<mapsto> dh, ''reward'' \<mapsto> rh, ''discount'' \<mapsto> ch]
                   else [''decoder'' \<mapsto> dh, ''reward'' \<mapsto> rh]),
          head_mean = hm, iso_reg = ir\<rparr>)"
  unfolding WorldModel_init_cases(1) registered_None ..

lemma WorldModel_init_error_iff:
  "(\<exists>e. WorldModel_init cfg rs dh rh ch hm ir = Inl e) \<longleftrightarrow>
      (\<exists>name \<in> set (grad_heads cfg).
         name \<notin> {''decoder'', ''reward''} \<union> (if pred_discount cfg then {''discount''} else {}))"
proof (cases "find (\<lambda>name. name \<notin> {''decoder'', ''reward''}
                          \<union> (if pred_discount cfg then {''discount''} else {}))
             (grad_heads cfg)")
  case None
  have "\<not> (\<exists>e. WorldModel_init cfg rs dh rh ch hm ir = Inl e)"
    unfolding WorldModel_init_result None by simp
  moreover have "\<not> (\<exists>name \<in> set (grad_heads cfg).
         name \<notin> {''decoder'', ''reward''} \<union> (if pred_discount cfg then {''discount''} else {}))"
    using None unfolding find_None_iff_all by blast
  ultimately show ?thesis by blast
next
  case (Some name)
  have "WorldModel_init cfg rs dh rh ch hm ir = Inl (AssertionError name)"
    unfolding WorldModel_init_result Some by simp
  moreover have "name \<in> set (grad_heads cfg) \<and>
      name \<notin> {''decoder'', ''reward''} \<union> (if pred_discount cfg then {''discount''} else {})"
    using find_SomeD[OF Some] .
  ultimately show ?thesis by blast
qed

lemma WorldModel_init_error_name:
  assumes "WorldModel_init cfg rs dh rh ch hm ir = Inl e"
  shows "\<exists>name \<in> set (grad_heads cfg). e = AssertionError name \<and>
      name \<notin> {''decoder'', ''reward''} \<union> (if pred_discount cfg then {''discount''} else {})"
proof (cases "find (\<lambda>name. name \<notin> {''decoder'', ''reward''}
                          \<union> (if pred_discount cfg then {''discount''} else {}))
             (grad_heads cfg)")
  case None
  with assms show ?thesis unfolding WorldModel_init_result by simp
next
  case (Some name)
  have "e = AssertionError name" using assms unfolding WorldModel_init_result Some by simp
  with find_SomeD[OF Some] show ?thesis by blast
qed

lemma WorldModel_init_heads:
  assumes "WorldModel_init cfg rs dh rh ch hm ir = Inr wm"
  shows "dom (heads wm) = {''decoder'', ''reward''}
           \<union> (if pred_discount cfg then {''discount''} else {})
         \<and> set (grad_heads cfg) \<subseteq> dom (heads wm)"
proof (cases "find (\<lambda>name. name \<notin> {''decoder'', ''reward''}
                          \<union> (if pred_discount cfg then {''discount''} else {}))
             (grad_heads cfg)")
  case None
  have h: "heads wm = (if pred_discount cfg
                   then [''decoder'' \<mapsto> dh, ''reward'' \<mapsto> rh, ''discount'' \<mapsto> ch]
                   else [''decoder'' \<mapsto> dh, ''reward'' \<mapsto> rh])"
    using assms unfolding WorldModel_init_result None by auto
  have d: "dom (heads wm) = {''decoder'', ''reward''}
           \<union> (if pred_discount cfg then {''discount''} else {})"
    unfolding h by (rule WorldModel_init_cases(2))
  have "\<forall>name \<in> set (grad_heads cfg). name \<in> {''decoder'', ''reward''}
           \<union> (if pred_discount cfg then {''discount''} else {})"
    using None unfolding find_None_iff_all by blast
  then have "set (grad_heads cfg) \<subseteq> dom (heads wm)" unfolding d by blast
  with d show ?thesis by (rule conjI)
next
  case (Some name)
  with assms show ?thesis unfolding WorldModel_init_result by simp
qed

text \<open>
  Claim C7. \<open>WorldModel.__init__\<close> raises if and only if a name of
  \<open>config.grad_heads\<close> is not a registered head (\<open>decoder\<close>, \<open>reward\<close>, and
  \<open>discount\<close> when \<open>pred_discount\<close> is set); what it raises is the assertion with
  such a name as its message, and a constructed world model has exactly the registered
  heads, all names of \<open>grad_heads\<close> among them. In \<open>WorldModel.loss\<close>, once the batch
  is preprocessed and the entries read for the observation are there, a KL loss that is
  not of rank 0 ends the call with the assertion, and \<open>WorldModel.train\<close> ends with the
  same error, which it does not catch. Conversely \<open>loss\<close> raises an assertion only for
  a KL loss that is not of rank 0: with a scalar KL loss the branch is not reached.
\<close>

theorem world_model_assertions:
  "((\<exists>e. WorldModel_init cfg rs dh rh ch hm ir = Inl e) \<longleftrightarrow>
      (\<exists>name \<in> set (grad_heads cfg).
         name \<notin> {''decoder'', ''reward''} \<union> (if pred_discount cfg then {''discount''} else {})))
   \<and> (\<forall>e. WorldModel_init cfg rs dh rh ch hm ir = Inl e \<longrightarrow>
         (\<exists>name \<in> set (grad_heads cfg). e = AssertionError name \<and>
            name \<notin> {''decoder'', ''reward''} \<union> (if pred_discount cfg then {''discount''} else {})))
   \<and> (\<forall>wm. WorldModel_init cfg rs dh rh ch hm ir = Inr wm \<longrightarrow>
         dom (heads wm) = {''decoder'', ''reward''} \<union> (if pred_discount cfg then {''discount''} else {})
         \<and> set (grad_heads cfg) \<subseteq> dom (heads wm))
   \<and> (preprocess (wm_config w) dt data0 = Inr data \<and> data ''action'' \<noteq> None
        \<and> data ''is_first'' \<noteq> None \<longrightarrow>
         (shape (kl_loss_out nets state data) \<noteq> [] \<longrightarrow>
            loss w nets dt rnd data0 state = Inl (AssertionError []) \<and>
            WorldModel_train w nets dt rnd data0 state = Inl (AssertionError [])))
   \<and> (\<forall>m. loss w nets dt rnd data0 state = Inl (AssertionError m) \<longrightarrow>
         (\<exists>data. preprocess (wm_config w) dt data0 = Inr data \<and>
            shape (kl_loss_out nets state data) \<noteq> []))"
proof (intro conjI allI impI)
  show "(\<exists>e. WorldModel_init cfg rs dh rh ch hm ir = Inl e) \<longleftrightarrow>
      (\<exists>name \<in> set (grad_heads cfg).
         name \<notin> {''decoder'', ''reward''} \<union> (if pred_discount cfg then {''discount''} else {}))"
    by (rule WorldModel_init_error_iff)
next
  fix e assume "WorldModel_init cfg rs dh rh ch hm ir = Inl e"
  then show "\<exists>name \<in> set (grad_heads cfg). e = AssertionError name \<and>
            name \<notin> {''decoder'', ''reward''} \<union> (if pred_discount cfg then {''discount''} else {})"
    by (rule WorldModel_init_error_name)
next
  fix wm assume i: "WorldModel_init cfg rs dh rh ch hm ir = Inr wm"
  from WorldModel_init_heads[OF i]
  show "dom (heads wm) = {''decoder'', ''reward''} \<union> (if pred_discount cfg then {''discount''} else {})"
    by (rule conjunct1)
  from WorldModel_init_heads[OF i]
  show "set (grad_heads cfg) \<subseteq> dom (heads wm)"
    by (rule conjunct2)
next
  assume p: "preprocess (wm_config w) dt data0 = Inr data \<and> data ''action'' \<noteq> None
        \<and> data ''is_first'' \<noteq> None"
    and s: "shape (kl_loss_out nets state data) \<noteq> []"
  from p have p1: "preprocess (wm_config w) dt data0 = Inr data"
    and p2: "data ''action'' \<noteq> None" and p3: "data ''is_first'' \<noteq> None" by simp_all
  show l: "loss w nets dt rnd data0 state = Inl (AssertionError [])"
    using p1 p2 p3 s by (rule loss_not_scalar)
  show "WorldModel_train w nets dt rnd data0 state = Inl (AssertionError [])"
    unfolding WorldModel_train_error by (rule l)
next
  fix m assume "loss w nets dt rnd data0 state = Inl (AssertionError m)"
  then show "\<exists>data. preprocess (wm_config w) dt data0 = Inr data \<and>
            shape (kl_loss_out nets state data) \<noteq> []"
    by (rule loss_assertion_only_if)
qed

lemma preprocess_returns:
  assumes "clip_rewards cfg \<in> {''identity'', ''sign'', ''tanh''}"
    and "obs ''reward'' \<noteq> None" and "obs ''is_terminal'' \<noteq> None"
  shows "\<exists>out. preprocess cfg dt obs = Inr out \<and>
     (\<forall>key. obs key \<noteq> None \<longrightarrow> out key \<noteq> None)"
proof -
  obtain f where f: "[''identity'' \<mapsto> (\<lambda>x. x), ''sign'' \<mapsto> sgn, ''tanh'' \<mapsto> tanh] (clip_rewards cfg)
      = Some (f :: real \<Rightarrow> real)"
    using assms(1) by auto
  obtain r it where r: "obs ''reward'' = Some r" and it: "obs ''is_terminal'' = Some it"
    using assms(2,3) by auto
  have nl: "\<not> startswith ''reward'' ''log_''" "\<not> startswith ''is_terminal'' ''log_''"
    by (simp_all add: startswith_def)
  show ?thesis
    using f r it nl by (auto simp: preprocess_def Let_def split: option.splits)
qed

lemma example_batch_keys:
  "example_batch ''reward'' \<noteq> None" "example_batch ''is_terminal'' \<noteq> None"
  "example_batch ''action'' \<noteq> None" "example_batch ''is_first'' \<noteq> None"
  by (simp_all add: example_batch_def example_obs_def)

theorem world_model_assertions_witness:
  "WorldModel_init (example_config\<lparr>grad_heads := [''decoder'', ''value'']\<rparr>) example_rssm
       (0::nat) 1 2 (\<lambda>h f. 1/2) (1/10) = Inl (AssertionError ''value'')
   \<and> loss example_wm_feat (example_loss_nets\<lparr>kl_loss_out := (\<lambda>state data. Array 2 [])\<rparr>)
       float32 example_draws example_batch None = Inl (AssertionError [])"
proof
  let ?cfg = "example_config\<lparr>grad_heads := [''decoder'', ''value'']\<rparr>"
  let ?init = "WorldModel_init ?cfg example_rssm (0::nat) 1 2 (\<lambda>h f. 1/2) (1/10)"
  note a = world_model_assertions[where cfg = ?cfg and rs = example_rssm and dh = "0::nat"
      and rh = 1 and ch = 2 and hm = "\<lambda>h f. 1/2" and ir = "1/10"]
  have bad: "\<exists>name \<in> set (grad_heads ?cfg).
      name \<notin> {''decoder'', ''reward''} \<union> (if pred_discount ?cfg then {''discount''} else {})"
    by (simp add: example_config_def)
  from a[THEN conjunct1] bad obtain e where e: "?init = Inl e" by blast
  from a[THEN conjunct2, THEN conjunct1, rule_format, OF e]
  obtain name where n: "name \<in> set (grad_heads ?cfg)" "e = AssertionError name"
    "name \<notin> {''decoder'', ''reward''} \<union> (if pred_discount ?cfg then {''discount''} else {})"
    by blast
  from n(1,3) have "name = ''value''" by (simp add: example_config_def)
  with e n(2) show "?init = Inl (AssertionError ''value'')" by simp
next
  let ?nets = "example_loss_nets\<lparr>kl_loss_out := (\<lambda>state data. Array 2 [])\<rparr>"
  have c: "clip_rewards (wm_config example_wm_feat) \<in> {''identity'', ''sign'', ''tanh''}"
    by (simp add: example_wm_feat_def example_config_def)
  from preprocess_returns[OF c example_batch_keys(1,2), of float32]
  obtain out where o: "preprocess (wm_config example_wm_feat) float32 example_batch = Inr out"
    and k: "\<forall>key. example_batch key \<noteq> None \<longrightarrow> out key \<noteq> None"
    by blast
  from k example_batch_keys(3,4) have k2: "out ''action'' \<noteq> None" "out ''is_first'' \<noteq> None"
    by blast+
  have s: "shape (kl_loss_out ?nets (None :: unit option) out) \<noteq> []" by simp
  from o k2 have p: "preprocess (wm_config example_wm_feat) float32 example_batch = Inr out
      \<and> out ''action'' \<noteq> None \<and> out ''is_first'' \<noteq> None" by simp
  from world_model_assertions[THEN conjunct2, THEN conjunct2, THEN conjunct2, THEN conjunct1,
      rule_format, OF p s]
  show "loss example_wm_feat ?nets float32 example_draws example_batch None
      = Inl (AssertionError [])"
    by (rule conjunct1)
qed

subsection \<open>The distortion measure\<close>






















lemma example_sample: "rev [0..<400] ! 0 = 399"
  by (simp add: rev_nth)








end
